theory Spec2Isabelle
  imports Complex_Main
begin

section \<open>JavaScript values shared by the modules\<close>

text \<open>
  The scripts run in a browser. Exceptions that the engine raises (calling a
  property that is not a function, reading a property of \<open>null\<close>, a selector
  that does not parse) are values of \<open>js_error\<close>.
\<close>

datatype js_error = TypeError | SyntaxError

text \<open>
  \<open>Number.prototype.toString\<close> on an integer and \<open>parseInt(s, 10)\<close>:
  \<open>parseInt\<close> skips leading white space, reads an optional sign and the longest
  run of decimal digits, and is \<open>NaN\<close> (here \<open>None\<close>) when there is no digit.
\<close>

definition digit_char :: "nat \<Rightarrow> char" where
  "digit_char n = ''0123456789'' ! n"

fun nat_toString :: "nat \<Rightarrow> string" where
  "nat_toString n =
     (if n < 10 then [digit_char n] else nat_toString (n div 10) @ [digit_char (n mod 10)])"

definition js_toString :: "int \<Rightarrow> string" where
  "js_toString i = (if i < 0 then CHR ''-'' # nat_toString (nat (- i)) else nat_toString (nat i))"

definition is_digit :: "char \<Rightarrow> bool" where
  "is_digit c = ((48::nat) \<le> of_char c \<and> of_char c \<le> (57::nat))"

definition is_space :: "char \<Rightarrow> bool" where
  "is_space c = (of_char c \<in> {9, 10, 11, 12, 13, 32 :: nat})"

definition digits_value :: "string \<Rightarrow> nat" where
  "digits_value ds = foldl (\<lambda>acc c. 10 * acc + (of_char c - 48)) (0::nat) ds"

definition parse_digits :: "string \<Rightarrow> nat option" where
  "parse_digits s =
     (let ds = takeWhile is_digit s in if ds = [] then None else Some (digits_value ds))"

definition parseInt :: "string \<Rightarrow> int option" where
  "parseInt s =
     (case dropWhile is_space s of
        [] \<Rightarrow> None
      | c # cs \<Rightarrow>
          if c = CHR ''-'' then map_option (\<lambda>n. - int n) (parse_digits cs)
          else if c = CHR ''+'' then map_option int (parse_digits cs)
          else map_option int (parse_digits (c # cs)))"

section \<open>ViewportUtils\<close>

subsection \<open>Viewport size and breakpoints\<close>

text \<open>
  What \<open>getViewportSize\<close> reads: \<open>document.documentElement.clientWidth\<close>,
  \<open>window.innerWidth\<close> and the two heights, all integers of CSS pixels.
\<close>

record window_metrics =
  clientWidth :: int
  innerWidth :: int
  clientHeight :: int
  innerHeight :: int

record viewport_size =
  width :: int
  height :: int

text \<open>\<open>x || 0\<close> on a number: \<open>0\<close> is the only falsy integer.\<close>

definition or_zero :: "int \<Rightarrow> int" where
  "or_zero x = (if x = 0 then 0 else x)"

definition getViewportSize :: "window_metrics \<Rightarrow> viewport_size" where
  "getViewportSize m =
     \<lparr> width = max (or_zero (clientWidth m)) (or_zero (innerWidth m)),
       height = max (or_zero (clientHeight m)) (or_zero (innerHeight m)) \<rparr>"

definition getCurrentBreakpoint :: "window_metrics \<Rightarrow> string" where
  "getCurrentBreakpoint m =
     (let w = width (getViewportSize m) in
      if w \<ge> 1400 then ''xl''
      else if w \<ge> 1024 then ''lg''
      else if w \<ge> 768 then ''md''
      else if w \<ge> 480 then ''sm''
      else ''xs'')"

definition isBreakpoint :: "window_metrics \<Rightarrow> string \<Rightarrow> bool" where
  "isBreakpoint m breakpoint = (getCurrentBreakpoint m = breakpoint)"

definition isMobile :: "window_metrics \<Rightarrow> bool" where
  "isMobile m = (width (getViewportSize m) \<le> 768)"

definition isTablet :: "window_metrics \<Rightarrow> bool" where
  "isTablet m = (let w = width (getViewportSize m) in w > 768 \<and> w \<le> 1024)"

definition isDesktop :: "window_metrics \<Rightarrow> bool" where
  "isDesktop m = (width (getViewportSize m) > 1024)"

subsection \<open>Scroll lock\<close>

text \<open>
  The part of the page that \<open>lockScroll\<close> and \<open>unlockScroll\<close> touch: three inline
  styles of the body, the body's \<open>data-scroll-y\<close> attribute (\<open>None\<close> when unset),
  the three places \<open>getScrollPosition\<close> reads the vertical offset from, and the
  calls made to \<open>window.scrollTo\<close> (the second argument is \<open>None\<close> for \<open>NaN\<close>).
\<close>

record scroll_page =
  body_position :: string
  body_top :: string
  body_width :: string
  dataset_scrollY :: "string option"
  pageYOffset :: int
  docScrollTop :: int
  bodyScrollTop :: int
  scrollTo_calls :: "(int \<times> int option) list"

text \<open>\<open>window.scrollTo(x, y)\<close>: the call is recorded and the window scrolls (\<open>NaN\<close> is 0).\<close>

definition scrollTo :: "int \<Rightarrow> int option \<Rightarrow> scroll_page \<Rightarrow> scroll_page" where
  "scrollTo x y p =
     p\<lparr> scrollTo_calls := scrollTo_calls p @ [(x, y)],
        pageYOffset := (case y of None \<Rightarrow> 0 | Some v \<Rightarrow> v) \<rparr>"

definition getScrollPosition_y :: "scroll_page \<Rightarrow> int" where
  "getScrollPosition_y p =
     (if pageYOffset p \<noteq> 0 then pageYOffset p
      else if docScrollTop p \<noteq> 0 then docScrollTop p
      else if bodyScrollTop p \<noteq> 0 then bodyScrollTop p
      else 0)"

definition lockScroll :: "scroll_page \<Rightarrow> scroll_page" where
  "lockScroll p =
     (let scrollY = getScrollPosition_y p in
      p\<lparr> body_position := ''fixed'',
         body_top := ''-'' @ js_toString scrollY @ ''px'',
         body_width := ''100%'',
         dataset_scrollY := Some (js_toString scrollY) \<rparr>)"

definition unlockScroll :: "scroll_page \<Rightarrow> scroll_page" where
  "unlockScroll p =
     (let scrollY = dataset_scrollY p;
          p1 = p\<lparr> body_position := '''', body_top := '''', body_width := '''' \<rparr>
      in case scrollY of
           None \<Rightarrow> p1
         | Some s \<Rightarrow>
             if s = '''' then p1
             else (scrollTo 0 (parseInt s) p1)\<lparr> dataset_scrollY := None \<rparr>)"

subsection \<open>Scroll progress\<close>

text \<open>
  JavaScript numbers as far as \<open>onScroll\<close> needs them: a finite value (the rounding
  of doubles is left out, finite values are exact rationals), the two infinities and
  \<open>NaN\<close>. Dividing by zero does not raise: a positive dividend gives \<open>Infinity\<close>, a
  negative one \<open>-Infinity\<close>, and \<open>0 / 0\<close> is \<open>NaN\<close>. The divisor here is a difference
  of two integers, so it is never the negative zero.
\<close>

datatype jsnum = Finite rat | PosInf | NegInf | NaN

definition js_div :: "int \<Rightarrow> int \<Rightarrow> jsnum" where
  "js_div a b =
     (if b \<noteq> 0 then Finite (of_int a / of_int b)
      else if a > 0 then PosInf
      else if a < 0 then NegInf
      else NaN)"

fun Math_max :: "jsnum \<Rightarrow> jsnum \<Rightarrow> jsnum" where
  "Math_max NaN _ = NaN"
| "Math_max _ NaN = NaN"
| "Math_max PosInf _ = PosInf"
| "Math_max _ PosInf = PosInf"
| "Math_max NegInf y = y"
| "Math_max x NegInf = x"
| "Math_max (Finite a) (Finite b) = Finite (max a b)"

fun Math_min :: "jsnum \<Rightarrow> jsnum \<Rightarrow> jsnum" where
  "Math_min NaN _ = NaN"
| "Math_min _ NaN = NaN"
| "Math_min NegInf _ = NegInf"
| "Math_min _ NegInf = NegInf"
| "Math_min PosInf y = y"
| "Math_min x PosInf = x"
| "Math_min (Finite a) (Finite b) = Finite (min a b)"

text \<open>
  The object \<open>onScroll\<close> hands to the callback (the horizontal offset of
  \<open>position\<close>, which no computation reads, is left out).
\<close>

record scroll_payload =
  sp_position_y :: int
  sp_viewport :: viewport_size
  sp_progress :: jsnum

text \<open>
  The function that \<open>onScroll\<close> throttles and registers for the scroll event, with
  \<open>document.body.scrollHeight\<close> as \<open>scrollHeight\<close>; its result is the argument of
  \<open>callback\<close>.
\<close>

definition onScroll_payload :: "window_metrics \<Rightarrow> scroll_page \<Rightarrow> int \<Rightarrow> scroll_payload" where
  "onScroll_payload m p scrollHeight =
     (let position_y = getScrollPosition_y p;
          viewport = getViewportSize m;
          progress = js_div position_y (scrollHeight - height viewport)
      in \<lparr> sp_position_y = position_y, sp_viewport = viewport,
           sp_progress = Math_min (Finite 1) (Math_max (Finite 0) progress) \<rparr>)"

section \<open>LaptopEnhancer\<close>

text \<open>
  The enhancer caches three elements (\<open>None\<close> when \<open>querySelector\<close> found none);
  of each only the inline \<open>max-width\<close> matters here. Timers are kept as the list of
  pending \<open>setTimeout\<close> calls, listeners as the list of functions registered for the
  window's resize event.
\<close>

datatype le_task = AdjustSize

datatype le_listener = ResizeArrow

datatype le_closure = ExecutedFunction le_task nat

record laptop_enhancer =
  le_innerWidth :: int
  laptopImage :: "string option"
  laptopFrame :: "string option"
  laptopShowcase :: "string option"
  le_timeouts :: "(nat \<times> le_task) list"
  le_resize_listeners :: "le_listener list"

text \<open>\<open>parseInt(maxWidth) + 50 + 'px'\<close>; a \<open>NaN\<close> prints as \<open>NaN\<close>.\<close>

definition plus50px :: "string \<Rightarrow> string" where
  "plus50px maxWidth =
     (case parseInt maxWidth of
        Some n \<Rightarrow> js_toString (n + 50) @ ''px''
      | None \<Rightarrow> ''NaNpx'')"

definition adjustSizeForViewport :: "laptop_enhancer \<Rightarrow> laptop_enhancer" where
  "adjustSizeForViewport s =
     (let viewportWidth = le_innerWidth s;
          maxWidth =
            (if viewportWidth \<ge> 1400 then ''800px''
             else if viewportWidth \<ge> 1200 then ''750px''
             else if viewportWidth \<ge> 992 then ''650px''
             else if viewportWidth \<ge> 768 then ''580px''
             else if viewportWidth \<ge> 576 then ''520px''
             else ''450px'');
          s1 = (case laptopImage s of None \<Rightarrow> s
                | Some _ \<Rightarrow> s\<lparr> laptopImage := Some maxWidth \<rparr>);
          s2 = (case laptopFrame s1 of None \<Rightarrow> s1
                | Some _ \<Rightarrow> s1\<lparr> laptopFrame := Some (plus50px maxWidth) \<rparr>);
          s3 = (case laptopShowcase s2 of None \<Rightarrow> s2
                | Some _ \<Rightarrow> s2\<lparr> laptopShowcase := Some (plus50px maxWidth) \<rparr>)
      in s3)"

text \<open>
  The enhancer's own \<open>debounce(func, wait)\<close> only builds and returns the function
  \<open>executedFunction\<close>; nothing is scheduled until that function is called. Calling it
  clears its (still undefined) timer and sets one for \<open>later\<close>, which runs \<open>func\<close>.
\<close>

definition le_debounce :: "le_task \<Rightarrow> nat \<Rightarrow> le_closure" where
  "le_debounce func wait = ExecutedFunction func wait"

fun call_executedFunction :: "le_closure \<Rightarrow> laptop_enhancer \<Rightarrow> laptop_enhancer" where
  "call_executedFunction (ExecutedFunction func wait) s =
     s\<lparr> le_timeouts := le_timeouts s @ [(wait, func)] \<rparr>"

fun run_le_task :: "le_task \<Rightarrow> laptop_enhancer \<Rightarrow> laptop_enhancer" where
  "run_le_task AdjustSize s = adjustSizeForViewport s"

text \<open>
  The resize listener of \<open>enhanceLaptopSize\<close>:
  \<^verbatim>\<open>() => { this.debounce(() => this.adjustSizeForViewport(), 250); }\<close>.
  The function that \<open>debounce\<close> returns is dropped, not called.
\<close>

fun run_le_listener :: "le_listener \<Rightarrow> laptop_enhancer \<Rightarrow> laptop_enhancer" where
  "run_le_listener ResizeArrow s = (let dropped = le_debounce AdjustSize 250 in s)"

definition enhanceLaptopSize :: "laptop_enhancer \<Rightarrow> laptop_enhancer" where
  "enhanceLaptopSize s =
     (let s1 = adjustSizeForViewport s
      in s1\<lparr> le_resize_listeners := le_resize_listeners s1 @ [ResizeArrow] \<rparr>)"

text \<open>
  The browser resizes the window to \<open>w\<close> and runs the resize listeners in the order
  of their registration; later every pending timer fires.
\<close>

definition window_resize :: "int \<Rightarrow> laptop_enhancer \<Rightarrow> laptop_enhancer" where
  "window_resize w s = fold run_le_listener (le_resize_listeners s) (s\<lparr> le_innerWidth := w \<rparr>)"

definition le_run_timeouts :: "laptop_enhancer \<Rightarrow> laptop_enhancer" where
  "le_run_timeouts s = fold run_le_task (map snd (le_timeouts s)) (s\<lparr> le_timeouts := [] \<rparr>)"

definition laptop_page :: "int \<Rightarrow> laptop_enhancer" where
  "laptop_page w =
     \<lparr> le_innerWidth = w, laptopImage = Some '''', laptopFrame = Some '''',
       laptopShowcase = Some '''', le_timeouts = [], le_resize_listeners = [] \<rparr>"

section \<open>Listeners and timers of ViewportUtils\<close>

text \<open>
  \<open>Helpers.debounce(func, wait, immediate)\<close> returns a function that owns a variable
  \<open>timeout\<close>. Each such function is a cell of a store, addressed by a number; the
  cell keeps what the function has captured. The \<open>func\<close> that \<open>onViewportChange\<close>
  passes is its arrow function around the caller's \<open>callback\<close>, which is kept as the
  number \<open>d_callback\<close> naming that callback.
\<close>

record debounced =
  d_callback :: nat
  d_wait :: nat
  d_immediate :: bool
  d_timeout :: "nat option"

text \<open>
  The window: its metrics, the clock in milliseconds, the listeners as pairs of an event
  type and the registered function in the order of registration, the pending timers
  (timer id, time due, the debounced function whose \<open>later\<close> it runs), and the log
  of the calls the callbacks have received (callback, \<open>viewport\<close>, \<open>breakpoint\<close>).
\<close>

record vu_window =
  vu_metrics :: window_metrics
  vu_now :: nat
  vu_listeners :: "(string \<times> nat) list"
  vu_store :: "nat \<Rightarrow> debounced option"
  vu_next_function :: nat
  vu_timers :: "(nat \<times> nat \<times> nat) list"
  vu_next_timer :: nat
  vu_calls :: "(nat \<times> viewport_size \<times> string) list"

text \<open>\<open>addEventListener\<close> ignores a function already registered for the type.\<close>

definition addEventListener :: "string \<Rightarrow> nat \<Rightarrow> vu_window \<Rightarrow> vu_window" where
  "addEventListener type f w =
     (if (type, f) \<in> set (vu_listeners w) then w
      else w\<lparr> vu_listeners := vu_listeners w @ [(type, f)] \<rparr>)"

definition removeEventListener :: "string \<Rightarrow> nat \<Rightarrow> vu_window \<Rightarrow> vu_window" where
  "removeEventListener type f w =
     w\<lparr> vu_listeners := filter (\<lambda>l. l \<noteq> (type, f)) (vu_listeners w) \<rparr>"

definition clearTimeout :: "nat option \<Rightarrow> vu_window \<Rightarrow> vu_window" where
  "clearTimeout t w =
     (case t of
        None \<Rightarrow> w
      | Some tid \<Rightarrow> w\<lparr> vu_timers := filter (\<lambda>(i, due, f). i \<noteq> tid) (vu_timers w) \<rparr>)"

definition setTimeout :: "nat \<Rightarrow> nat \<Rightarrow> vu_window \<Rightarrow> nat \<times> vu_window" where
  "setTimeout f wait w =
     (vu_next_timer w,
      w\<lparr> vu_timers := vu_timers w @ [(vu_next_timer w, vu_now w + wait, f)],
         vu_next_timer := Suc (vu_next_timer w) \<rparr>)"

text \<open>
  The arrow function of \<open>onViewportChange\<close>: it reads the viewport and the breakpoint
  and calls \<open>callback\<close> with both.
\<close>

definition viewport_func :: "nat \<Rightarrow> vu_window \<Rightarrow> vu_window" where
  "viewport_func callback w =
     (let viewport = getViewportSize (vu_metrics w);
          breakpoint = getCurrentBreakpoint (vu_metrics w)
      in w\<lparr> vu_calls := vu_calls w @ [(callback, viewport, breakpoint)] \<rparr>)"

definition debounce :: "nat \<Rightarrow> nat \<Rightarrow> bool \<Rightarrow> vu_window \<Rightarrow> nat \<times> vu_window" where
  "debounce callback wait immediate w =
     (vu_next_function w,
      w\<lparr> vu_store := (vu_store w)(vu_next_function w \<mapsto>
             \<lparr> d_callback = callback, d_wait = wait, d_immediate = immediate,
               d_timeout = None \<rparr>),
         vu_next_function := Suc (vu_next_function w) \<rparr>)"

text \<open>The body of \<open>executedFunction\<close>, the function \<open>debounce\<close> returns.\<close>

definition executedFunction :: "nat \<Rightarrow> vu_window \<Rightarrow> vu_window" where
  "executedFunction f w =
     (case vu_store w f of
        None \<Rightarrow> w
      | Some d \<Rightarrow>
          let callNow = (d_immediate d \<and> d_timeout d = None);
              w1 = clearTimeout (d_timeout d) w;
              (tid, w2) = setTimeout f (d_wait d) w1;
              w3 = w2\<lparr> vu_store := (vu_store w2)(f \<mapsto> d\<lparr> d_timeout := Some tid \<rparr>) \<rparr>
          in if callNow then viewport_func (d_callback d) w3 else w3)"

text \<open>The timer's function \<open>later\<close> of the debounced function \<open>f\<close>.\<close>

definition later :: "nat \<Rightarrow> vu_window \<Rightarrow> vu_window" where
  "later f w =
     (case vu_store w f of
        None \<Rightarrow> w
      | Some d \<Rightarrow>
          let w1 = w\<lparr> vu_store := (vu_store w)(f \<mapsto> d\<lparr> d_timeout := None \<rparr>) \<rparr>
          in if \<not> d_immediate d then viewport_func (d_callback d) w1 else w1)"

text \<open>
  \<open>onViewportChange(callback, debounceMs)\<close>. The clean-up function it returns closes
  over \<open>debouncedCallback\<close>: the model returns that function's address, and
  \<open>viewport_cleanup\<close> is the body of the clean-up function.
\<close>

definition onViewportChange :: "nat \<Rightarrow> nat \<Rightarrow> vu_window \<Rightarrow> nat \<times> vu_window" where
  "onViewportChange callback debounceMs w =
     (let (debouncedCallback, w1) = debounce callback debounceMs False w;
          w2 = addEventListener ''resize'' debouncedCallback w1;
          w3 = addEventListener ''orientationchange'' debouncedCallback w2;
          w4 = executedFunction debouncedCallback w3
      in (debouncedCallback, w4))"

definition viewport_cleanup :: "nat \<Rightarrow> vu_window \<Rightarrow> vu_window" where
  "viewport_cleanup debouncedCallback w =
     removeEventListener ''orientationchange'' debouncedCallback
       (removeEventListener ''resize'' debouncedCallback w)"

text \<open>
  The browser: an event of a type runs the functions registered for it; when \<open>dt\<close>
  milliseconds pass the timers that have come due fire, earliest first.
\<close>

definition fire_event :: "string \<Rightarrow> vu_window \<Rightarrow> vu_window" where
  "fire_event type w =
     fold executedFunction (map snd (filter (\<lambda>l. fst l = type) (vu_listeners w))) w"

definition advance_time :: "nat \<Rightarrow> vu_window \<Rightarrow> vu_window" where
  "advance_time dt w =
     (let t = vu_now w + dt;
          due = sort_key (\<lambda>(i, due, f). due) (filter (\<lambda>(i, due, f). due \<le> t) (vu_timers w));
          w1 = w\<lparr> vu_now := t,
                  vu_timers := filter (\<lambda>(i, due, f). \<not> due \<le> t) (vu_timers w) \<rparr>
      in fold (\<lambda>(i, due, f). later f) due w1)"

definition fresh_window :: "int \<Rightarrow> int \<Rightarrow> vu_window" where
  "fresh_window w h =
     \<lparr> vu_metrics = \<lparr> clientWidth = w, innerWidth = w, clientHeight = h, innerHeight = h \<rparr>,
       vu_now = 0, vu_listeners = [], vu_store = Map.empty, vu_next_function = 0,
       vu_timers = [], vu_next_timer = 0, vu_calls = [] \<rparr>"

section \<open>Helpers: class lists\<close>

text \<open>
  \<open>Helpers.addClass\<close> and \<open>Helpers.removeClass\<close> on the class list of an element that
  exists (they do nothing for \<open>null\<close>, which the callers below handle). A class list
  is the list of its tokens, without duplicates, in the order of insertion.
\<close>

definition addClass :: "string list \<Rightarrow> string \<Rightarrow> string list" where
  "addClass classList className =
     (if className \<in> set classList then classList else classList @ [className])"

definition removeClass :: "string list \<Rightarrow> string \<Rightarrow> string list" where
  "removeClass classList className =
     (if className \<in> set classList then removeAll className classList else classList)"

section \<open>Animations\<close>

text \<open>
  Elements are numbers. The structure of the document is fixed while the module runs
  and is a parameter: which selectors an element matches, what
  \<open>document.querySelectorAll\<close> returns, and the children of a laptop frame selected by
  \<^verbatim>\<open>.screen-content > *\<close>.
\<close>

record anim_dom =
  dom_matches :: "nat \<Rightarrow> string \<Rightarrow> bool"
  dom_querySelectorAll :: "string \<Rightarrow> nat list"
  dom_screen_content :: "nat \<Rightarrow> nat list"

text \<open>The inline styles the module writes; the empty string is a style not set.\<close>

record style =
  opacity :: string
  transform :: string
  transition :: string

text \<open>
  The functions handed to \<open>setTimeout\<close>: one that sets a transition, opacity 1 and a
  final transform on an element; the one of \<open>animateLaptopFrame\<close>, which also sets the
  timer for the screen content; and that timer's function.
\<close>

datatype anim_task =
  Reveal nat string string
  | LaptopReveal nat
  | ScreenContent nat

text \<open>
  \<open>Animations.state\<close> with the class lists and inline styles of the elements, the
  pending timers (delay in milliseconds and function, in the order of the
  \<open>setTimeout\<close> calls) and the lines the module writes to the console. An observer
  is the list of the elements it observes.
\<close>

record animations =
  observers :: "nat list list"
  animatedElements :: "nat set"
  isInitialized :: bool
  prefersReducedMotion :: bool
  an_classes :: "nat \<Rightarrow> string list"
  an_style :: "nat \<Rightarrow> style"
  an_timeouts :: "(nat \<times> anim_task) list"
  an_console :: "string list"

definition animationDuration :: int where
  "animationDuration = 600"

definition animationEasing :: string where
  "animationEasing = ''cubic-bezier(0.4, 0, 0.2, 1)''"

definition staggerDelay :: nat where
  "staggerDelay = 100"

text \<open>
  \<^verbatim>\<open>`all ${ms}ms ${this.config.animationEasing}`\<close>. The products
  \<open>animationDuration * 1.2\<close>, \<open>* 0.8\<close> and \<open>* 0.6\<close> are the integers 720, 480 and 360
  in double arithmetic as well; they are written with integer division.
\<close>

definition transition_all :: "int \<Rightarrow> string" where
  "transition_all ms = ''all '' @ js_toString ms @ ''ms '' @ animationEasing"

definition set_style :: "nat \<Rightarrow> (style \<Rightarrow> style) \<Rightarrow> animations \<Rightarrow> animations" where
  "set_style element f s = s\<lparr> an_style := (an_style s)(element := f (an_style s element)) \<rparr>"

definition an_setTimeout :: "anim_task \<Rightarrow> nat \<Rightarrow> animations \<Rightarrow> animations" where
  "an_setTimeout task delay s = s\<lparr> an_timeouts := an_timeouts s @ [(delay, task)] \<rparr>"

definition animateHeroHeading :: "nat \<Rightarrow> animations \<Rightarrow> animations" where
  "animateHeroHeading element s =
     an_setTimeout (Reveal element (transition_all animationDuration) ''translateY(0)'') 50
       (set_style element (\<lambda>st. st\<lparr> opacity := ''0'', transform := ''translateY(30px)'' \<rparr>) s)"

definition animateLaptopFrame :: "nat \<Rightarrow> animations \<Rightarrow> animations" where
  "animateLaptopFrame element s =
     an_setTimeout (LaptopReveal element) 100
       (set_style element
          (\<lambda>st. st\<lparr> opacity := ''0'', transform := ''translateX(50px) scale(0.9)'' \<rparr>) s)"

definition animateCTAButton :: "nat \<Rightarrow> animations \<Rightarrow> animations" where
  "animateCTAButton element s =
     an_setTimeout (Reveal element (transition_all animationDuration) ''translateY(0)'') 200
       (set_style element (\<lambda>st. st\<lparr> opacity := ''0'', transform := ''translateY(20px)'' \<rparr>) s)"

definition animateGeneric :: "nat \<Rightarrow> animations \<Rightarrow> animations" where
  "animateGeneric element s =
     an_setTimeout (Reveal element (transition_all animationDuration) ''translateY(0)'') 50
       (set_style element (\<lambda>st. st\<lparr> opacity := ''0'', transform := ''translateY(30px)'' \<rparr>) s)"

text \<open>The \<open>forEach\<close> of \<open>animateScreenContent\<close>, with its index.\<close>

fun screen_forEach :: "nat list \<Rightarrow> nat \<Rightarrow> animations \<Rightarrow> animations" where
  "screen_forEach [] index s = s"
| "screen_forEach (element # rest) index s =
     screen_forEach rest (Suc index)
       (an_setTimeout
          (Reveal element (transition_all ((animationDuration * 8) div 10)) ''translateY(0)'')
          (index * staggerDelay)
          (set_style element
             (\<lambda>st. st\<lparr> opacity := ''0'', transform := ''translateY(20px)'' \<rparr>) s))"

definition animateScreenContent :: "anim_dom \<Rightarrow> nat \<Rightarrow> animations \<Rightarrow> animations" where
  "animateScreenContent d frame s = screen_forEach (dom_screen_content d frame) 0 s"

definition animateElement :: "anim_dom \<Rightarrow> nat \<Rightarrow> animations \<Rightarrow> animations" where
  "animateElement d element s =
     (if element \<in> animatedElements s \<or> prefersReducedMotion s then s
      else
        let s1 = s\<lparr> animatedElements := insert element (animatedElements s) \<rparr>;
            s2 = s1\<lparr> an_classes := (an_classes s1)
                     (element := addClass (an_classes s1 element) ''animate-in'') \<rparr>
        in if dom_matches d element ''.hero-content h1'' then animateHeroHeading element s2
           else if dom_matches d element ''.laptop-frame'' then animateLaptopFrame element s2
           else if dom_matches d element ''.cta-button'' then animateCTAButton element s2
           else animateGeneric element s2)"

text \<open>What a timer does when it fires.\<close>

fun run_anim_task :: "anim_dom \<Rightarrow> anim_task \<Rightarrow> animations \<Rightarrow> animations" where
  "run_anim_task d (Reveal element timing final) s =
     set_style element
       (\<lambda>st. st\<lparr> transition := timing, opacity := ''1'', transform := final \<rparr>) s"
| "run_anim_task d (LaptopReveal element) s =
     an_setTimeout (ScreenContent element) (nat ((animationDuration * 6) div 10))
       (set_style element
          (\<lambda>st. st\<lparr> transition := transition_all ((animationDuration * 12) div 10),
                    opacity := ''1'', transform := ''translateX(0) scale(1)'' \<rparr>) s)"
| "run_anim_task d (ScreenContent element) s = animateScreenContent d element s"

text \<open>
  \<open>setupScrollAnimations\<close>: the selector list is the template literal of the source
  with its line breaks as single blanks. The new observer observes the selected
  elements that have not been animated.
\<close>

definition scroll_selector :: string where
  "scroll_selector =
     ''.hero-content h1, .hero-content p, .cta-button, .laptop-frame, .scroll-animate''"

definition setupScrollAnimations :: "anim_dom \<Rightarrow> animations \<Rightarrow> animations" where
  "setupScrollAnimations d s =
     (if prefersReducedMotion s then s
      else
        let animateOnScroll = dom_querySelectorAll d scroll_selector;
            observer = filter (\<lambda>element. element \<notin> animatedElements s) animateOnScroll
        in s\<lparr> observers := observers s @ [observer] \<rparr>)"

text \<open>
  The callback of the observer number \<open>i\<close>, on entries given as pairs of the target
  and \<open>isIntersecting\<close>: an intersecting target is animated and unobserved.
\<close>

fun observer_callback :: "anim_dom \<Rightarrow> nat \<Rightarrow> (nat \<times> bool) list \<Rightarrow> animations \<Rightarrow> animations" where
  "observer_callback d i [] s = s"
| "observer_callback d i ((target, isIntersecting) # entries) s =
     observer_callback d i entries
       (if isIntersecting then
          (let s1 = animateElement d target s
           in if i < length (observers s1)
              then s1\<lparr> observers := (observers s1)[i := removeAll target (observers s1 ! i)] \<rparr>
              else s1)
        else s)"

text \<open>The \<open>forEach\<close> of \<open>setupLoadAnimations\<close>, with its index.\<close>

fun load_forEach :: "nat list \<Rightarrow> nat \<Rightarrow> animations \<Rightarrow> animations" where
  "load_forEach [] index s = s"
| "load_forEach (element # rest) index s =
     load_forEach rest (Suc index)
       (if prefersReducedMotion s then
          set_style element (\<lambda>st. st\<lparr> opacity := ''1'' \<rparr>) s
        else
          an_setTimeout
            (Reveal element (transition_all ((animationDuration * 8) div 10)) ''translateY(0)'')
            (index * 50)
            (set_style element
               (\<lambda>st. st\<lparr> opacity := ''0'', transform := ''translateY(-10px)'' \<rparr>) s))"

definition setupLoadAnimations :: "anim_dom \<Rightarrow> animations \<Rightarrow> animations" where
  "setupLoadAnimations d s = load_forEach (dom_querySelectorAll d ''.logo, nav ul li'') 0 s"

definition destroy :: "animations \<Rightarrow> animations" where
  "destroy s = s\<lparr> observers := [], animatedElements := {}, isInitialized := False \<rparr>"

text \<open>
  \<open>checkMotionPreferences\<close> reads the media query \<open>(prefers-reduced-motion: reduce)\<close>,
  whose current answer is \<open>matches\<close>; \<open>document.body\<close> is the element 0. The
  listener that \<open>bindEvents\<close> registers for a change of the media query stores
  \<open>e.matches\<close>, the same answer, and calls \<open>checkMotionPreferences\<close>.
\<close>

definition document_body :: nat where
  "document_body = 0"

definition checkMotionPreferences :: "bool \<Rightarrow> animations \<Rightarrow> animations" where
  "checkMotionPreferences matches s =
     (let s1 = s\<lparr> prefersReducedMotion := matches \<rparr>
      in if prefersReducedMotion s1
         then s1\<lparr> an_classes := (an_classes s1)
                   (document_body := addClass (an_classes s1 document_body) ''reduce-motion''),
                 an_console := an_console s1 @ [''Reduced motion preference detected''] \<rparr>
         else s1)"

definition motion_change_listener :: "bool \<Rightarrow> animations \<Rightarrow> animations" where
  "motion_change_listener matches s =
     checkMotionPreferences matches (s\<lparr> prefersReducedMotion := matches \<rparr>)"

text \<open>The browser fires the pending timer number \<open>i\<close>: it leaves the list and runs.\<close>

definition fire_timeout :: "anim_dom \<Rightarrow> nat \<Rightarrow> animations \<Rightarrow> animations" where
  "fire_timeout d i s =
     (if i < length (an_timeouts s)
      then run_anim_task d (snd (an_timeouts s ! i))
             (s\<lparr> an_timeouts := take i (an_timeouts s) @ drop (Suc i) (an_timeouts s) \<rparr>)
      else s)"

text \<open>
  A page for the examples: element 1 is the hero heading, 2 the laptop frame with the
  screen children 5 and 6, 3 the call-to-action button, 4 a \<open>.scroll-animate\<close>
  element, 7 the logo and 8 a navigation item.
\<close>

definition sample_dom :: anim_dom where
  "sample_dom =
     \<lparr> dom_matches = (\<lambda>element selector.
           (element = 1 \<and> selector = ''.hero-content h1'')
         \<or> (element = 2 \<and> selector = ''.laptop-frame'')
         \<or> (element = 3 \<and> selector = ''.cta-button'')),
       dom_querySelectorAll = (\<lambda>selector.
           if selector = scroll_selector then [1, 3, 2, 4]
           else if selector = ''.logo, nav ul li'' then [7, 8]
           else []),
       dom_screen_content = (\<lambda>element. if element = 2 then [5, 6] else []) \<rparr>"

definition sample_animations :: "bool \<Rightarrow> animations" where
  "sample_animations reduced =
     \<lparr> observers = [], animatedElements = {}, isInitialized = False,
       prefersReducedMotion = reduced,
       an_classes = (\<lambda>element. []),
       an_style = (\<lambda>element. \<lparr> opacity = '''', transform = '''', transition = '''' \<rparr>),
       an_timeouts = [], an_console = [] \<rparr>"

text \<open>
  A run of the sample page: the preference is off, the heading (element 1) comes into
  view and is animated, and before its timer fires the user switches the preference
  on.
\<close>

definition heading_then_reduced :: animations where
  "heading_then_reduced =
     motion_change_listener True (animateElement sample_dom 1 (sample_animations False))"

section \<open>Navigation\<close>

text \<open>
  A function of the scripts either returns or throws; in both cases it leaves the page
  in some state (what was written before a throw stays written).
\<close>

datatype 'a result = Returned 'a | Threw js_error 'a

definition then_do :: "'a result \<Rightarrow> ('a \<Rightarrow> 'a result) \<Rightarrow> 'a result" where
  "then_do r f = (case r of Returned s \<Rightarrow> f s | Threw e s \<Rightarrow> Threw e s)"

fun state_of :: "'a result \<Rightarrow> 'a" where
  "state_of (Returned s) = s"
| "state_of (Threw e s) = s"

text \<open>
  The functions handed to \<open>setTimeout\<close>, and the function \<open>animation\<close> of
  \<open>Helpers.smoothScrollTo\<close> handed to \<open>requestAnimationFrame\<close>, with the variables
  it closes over.
\<close>

datatype nav_task = FocusLink nat | CloseMenu

record scroll_animation =
  sa_startPosition :: rat
  sa_distance :: rat
  sa_duration :: rat
  sa_startTime :: "rat option"

text \<open>
  The page as Navigation sees it. Elements are numbers. \<open>Navigation.state\<close> and
  \<open>Navigation.elements\<close> come first; then the store of class lists, attributes and
  text of the elements; their layout; the document's queries (a selector that does not
  parse makes \<open>querySelector\<close> throw, and \<open>nv_first_link\<close> is
  \<open>element.querySelector('a')\<close>); the window with the viewport, the scroll offset and
  the four-argument functions that are properties of the global object, by name; and
  what the handlers leave behind: the default action prevented, console lines with
  their level, the names of dispatched events, pending timers, requested animation
  frames, the calls of \<open>window.scrollTo\<close> and the element that has the focus.
  Scroll positions and times are rationals in place of doubles.
\<close>

record nav_page =
  isMobileMenuOpen :: bool
  currentSection :: string
  mobileMenuBtn :: "nat option"
  mainNav :: "nat option"
  navLinks :: "nat list"
  header :: "nat option"
  nv_classes :: "nat \<Rightarrow> string list"
  nv_attrs :: "nat \<Rightarrow> string \<Rightarrow> string option"
  nv_textContent :: "nat \<Rightarrow> string"
  nv_offsetTop :: "nat \<Rightarrow> int"
  nv_offsetHeight :: "nat \<Rightarrow> int"
  nv_getElementById :: "string \<Rightarrow> nat option"
  nv_querySelector :: "string \<Rightarrow> js_error + nat option"
  nv_first_link :: "nat \<Rightarrow> nat option"
  nv_metrics :: window_metrics
  nv_pageYOffset :: rat
  nv_global_functions :: "string \<Rightarrow> (rat \<Rightarrow> rat \<Rightarrow> rat \<Rightarrow> rat \<Rightarrow> rat) option"
  nv_defaultPrevented :: bool
  nv_console :: "(string \<times> string) list"
  nv_dispatched :: "string list"
  nv_timeouts :: "(nat \<times> nav_task) list"
  nv_frames :: "scroll_animation list"
  nv_scrollTo_calls :: "(rat \<times> rat) list"
  nv_focus :: "nat option"

definition smoothScrollDuration :: rat where
  "smoothScrollDuration = 800"

definition smoothScrollOffset :: int where
  "smoothScrollOffset = 80"

text \<open>The glyphs of the menu button, as their UTF-8 bytes.\<close>

definition glyph_close :: string where
  "glyph_close = [CHR 0xE2, CHR 0x9C, CHR 0x95]"

definition glyph_menu :: string where
  "glyph_menu = [CHR 0xE2, CHR 0x98, CHR 0xB0]"

fun thrown :: "'a result \<Rightarrow> js_error option" where
  "thrown (Returned s) = None"
| "thrown (Threw e s) = Some e"

subsection \<open>Helpers on the page\<close>

definition helpers_addClass :: "nat option \<Rightarrow> string \<Rightarrow> nav_page \<Rightarrow> nav_page" where
  "helpers_addClass element className w =
     (case element of
        None \<Rightarrow> w
      | Some x \<Rightarrow> w\<lparr> nv_classes := (nv_classes w)(x := addClass (nv_classes w x) className) \<rparr>)"

definition helpers_removeClass :: "nat option \<Rightarrow> string \<Rightarrow> nav_page \<Rightarrow> nav_page" where
  "helpers_removeClass element className w =
     (case element of
        None \<Rightarrow> w
      | Some x \<Rightarrow> w\<lparr> nv_classes := (nv_classes w)(x := removeClass (nv_classes w x) className) \<rparr>)"

definition setAttribute :: "nat \<Rightarrow> string \<Rightarrow> string \<Rightarrow> nav_page \<Rightarrow> nav_page" where
  "setAttribute x name v w =
     w\<lparr> nv_attrs := (nv_attrs w)(x := (nv_attrs w x)(name \<mapsto> v)) \<rparr>"

definition helpers_dispatchEvent :: "string \<Rightarrow> nav_page \<Rightarrow> nav_page" where
  "helpers_dispatchEvent eventName w = w\<lparr> nv_dispatched := nv_dispatched w @ [eventName] \<rparr>"

definition console :: "string \<Rightarrow> string \<Rightarrow> nav_page \<Rightarrow> nav_page" where
  "console level line w = w\<lparr> nv_console := nv_console w @ [(level, line)] \<rparr>"

definition nv_setTimeout :: "nav_task \<Rightarrow> nat \<Rightarrow> nav_page \<Rightarrow> nav_page" where
  "nv_setTimeout task delay w = w\<lparr> nv_timeouts := nv_timeouts w @ [(delay, task)] \<rparr>"

text \<open>
  The function \<open>easeInOutQuad\<close> declared inside \<open>smoothScrollTo\<close>. It is local to
  that function: it is not a property of any object.
\<close>

definition easeInOutQuad :: "rat \<Rightarrow> rat \<Rightarrow> rat \<Rightarrow> rat \<Rightarrow> rat" where
  "easeInOutQuad t b c d =
     (let t1 = t / (d / 2)
      in if t1 < 1 then c / 2 * t1 * t1 + b
         else let t2 = t1 - 1 in - c / 2 * (t2 * (t2 - 2) - 1) + b)"

text \<open>
  \<open>Helpers.smoothScrollTo(target, offset, duration)\<close> for a target that is an element
  or \<open>null\<close>, as Navigation calls it.
\<close>

definition smoothScrollTo :: "nat option \<Rightarrow> int \<Rightarrow> rat \<Rightarrow> nav_page \<Rightarrow> nav_page" where
  "smoothScrollTo target offset duration w =
     (case target of
        None \<Rightarrow> w
      | Some element \<Rightarrow>
          let startPosition = nv_pageYOffset w;
              targetPosition = of_int (nv_offsetTop w element - offset);
              distance = targetPosition - startPosition
          in w\<lparr> nv_frames := nv_frames w @
                 [\<lparr> sa_startPosition = startPosition, sa_distance = distance,
                    sa_duration = duration, sa_startTime = None \<rparr>] \<rparr>)"

text \<open>
  The function \<open>animation\<close>, called by the browser with the time of the frame. The
  browser calls it without a receiver, so \<open>this\<close> is the global object, and
  \<open>this.easeInOutQuad\<close> is looked up among the properties of the global object; calling
  a property that is not there throws a \<open>TypeError\<close> (in strict code \<open>this\<close> is
  undefined and the property access throws the same error).
\<close>

definition animation :: "scroll_animation \<Rightarrow> rat \<Rightarrow> nav_page \<Rightarrow> nav_page result" where
  "animation a currentTime w =
     (let startTime = (case sa_startTime a of None \<Rightarrow> currentTime | Some t \<Rightarrow> t);
          a1 = a\<lparr> sa_startTime := Some startTime \<rparr>;
          timeElapsed = currentTime - startTime
      in case nv_global_functions w ''easeInOutQuad'' of
           None \<Rightarrow> Threw TypeError w
         | Some f \<Rightarrow>
             let run = f timeElapsed (sa_startPosition a1) (sa_distance a1) (sa_duration a1);
                 w1 = w\<lparr> nv_scrollTo_calls := nv_scrollTo_calls w @ [(0, run)],
                         nv_pageYOffset := run \<rparr>
             in if timeElapsed < sa_duration a1
                then Returned (w1\<lparr> nv_frames := nv_frames w1 @ [a1] \<rparr>)
                else Returned w1)"

text \<open>The browser runs the oldest requested animation frame at time \<open>currentTime\<close>.\<close>

definition run_frame :: "rat \<Rightarrow> nav_page \<Rightarrow> nav_page result" where
  "run_frame currentTime w =
     (case nv_frames w of
        [] \<Rightarrow> Returned w
      | a # rest \<Rightarrow> animation a currentTime (w\<lparr> nv_frames := rest \<rparr>))"

subsection \<open>The mobile menu\<close>

definition openMobileMenu :: "nav_page \<Rightarrow> nav_page result" where
  "openMobileMenu w =
     (let w1 = w\<lparr> isMobileMenuOpen := True \<rparr>;
          w2 = helpers_addClass (mainNav w1) ''active'' w1;
          w3 = helpers_addClass (mobileMenuBtn w2) ''active'' w2
      in case mobileMenuBtn w3 of
           None \<Rightarrow> Threw TypeError w3
         | Some btn \<Rightarrow>
             let w4 = w3\<lparr> nv_textContent := (nv_textContent w3)(btn := glyph_close) \<rparr>;
                 w5 = setAttribute btn ''aria-expanded'' ''true'' w4
             in case mainNav w5 of
                  None \<Rightarrow> Threw TypeError w5
                | Some nav \<Rightarrow>
                    let w6 = (case nv_first_link w5 nav of
                                None \<Rightarrow> w5
                              | Some firstNavLink \<Rightarrow> nv_setTimeout (FocusLink firstNavLink) 100 w5);
                        w7 = helpers_dispatchEvent ''mobileMenuOpened'' w6
                    in Returned (console ''log'' ''Mobile menu opened'' w7))"

definition closeMobileMenu :: "nav_page \<Rightarrow> nav_page result" where
  "closeMobileMenu w =
     (let w1 = w\<lparr> isMobileMenuOpen := False \<rparr>;
          w2 = helpers_removeClass (mainNav w1) ''active'' w1;
          w3 = helpers_removeClass (mobileMenuBtn w2) ''active'' w2
      in case mobileMenuBtn w3 of
           None \<Rightarrow> Threw TypeError w3
         | Some btn \<Rightarrow>
             let w4 = w3\<lparr> nv_textContent := (nv_textContent w3)(btn := glyph_menu) \<rparr>;
                 w5 = setAttribute btn ''aria-expanded'' ''false'' w4;
                 w6 = helpers_dispatchEvent ''mobileMenuClosed'' w5
             in Returned (console ''log'' ''Mobile menu closed'' w6))"

definition toggleMobileMenu :: "nav_page \<Rightarrow> nav_page result" where
  "toggleMobileMenu w = (if isMobileMenuOpen w then closeMobileMenu w else openMobileMenu w)"

fun run_nav_task :: "nav_task \<Rightarrow> nav_page \<Rightarrow> nav_page result" where
  "run_nav_task (FocusLink link) w = Returned (w\<lparr> nv_focus := Some link \<rparr>)"
| "run_nav_task CloseMenu w = closeMobileMenu w"

subsection \<open>Clicks on navigation links\<close>

text \<open>
  \<^verbatim>\<open>document.getElementById(id) || document.querySelector(`[data-section="${id}"]`)\<close>:
  the selector is built from the id as it is, and the query runs only when no element
  has the id.
\<close>

definition data_section_selector :: "string \<Rightarrow> string" where
  "data_section_selector targetId =
     ''[data-section='' @ [CHR 0x22] @ targetId @ [CHR 0x22] @ '']''"

definition find_section :: "nav_page \<Rightarrow> string \<Rightarrow> js_error + nat option" where
  "find_section w targetId =
     (case nv_getElementById w targetId of
        Some element \<Rightarrow> Inr (Some element)
      | None \<Rightarrow> nv_querySelector w (data_section_selector targetId))"

definition scrollToElement :: "nat option \<Rightarrow> nav_page \<Rightarrow> nav_page" where
  "scrollToElement target w =
     (case target of
        None \<Rightarrow> w
      | Some element \<Rightarrow>
          let headerHeight = (case header w of Some h \<Rightarrow> nv_offsetHeight w h | None \<Rightarrow> 0);
              offset = headerHeight + smoothScrollOffset
          in smoothScrollTo (Some element) offset smoothScrollDuration w)"

text \<open>
  The loop of \<open>getCurrentSection\<close>, over the section names from the last to the
  first.
\<close>

fun section_scan :: "string list \<Rightarrow> nav_page \<Rightarrow> js_error + string" where
  "section_scan [] w = Inr ''home''"
| "section_scan (name # names) w =
     (case find_section w name of
        Inl e \<Rightarrow> Inl e
      | Inr None \<Rightarrow> section_scan names w
      | Inr (Some section) \<Rightarrow>
          if of_int (nv_offsetTop w section) \<le> nv_pageYOffset w + 100 then Inr name
          else section_scan names w)"

definition getCurrentSection :: "nav_page \<Rightarrow> js_error + string" where
  "getCurrentSection w =
     section_scan (rev [''home'', ''about'', ''services'', ''testimonials'', ''contact'']) w"

definition nav_link_selector :: "string \<Rightarrow> string" where
  "nav_link_selector sectionId =
     ''nav a[href='' @ [CHR 0x22] @ ''#'' @ sectionId @ [CHR 0x22] @ '']''"

definition clear_link :: "nat \<Rightarrow> nav_page \<Rightarrow> nav_page" where
  "clear_link link w =
     setAttribute link ''aria-current'' ''false'' (helpers_removeClass (Some link) ''active'' w)"

text \<open>\<open>updateActiveNavItem(sectionId)\<close>; \<open>None\<close> is the default \<open>null\<close>.\<close>

definition updateActiveNavItem :: "string option \<Rightarrow> nav_page \<Rightarrow> nav_page result" where
  "updateActiveNavItem sectionId w =
     (case (case sectionId of
              None \<Rightarrow> getCurrentSection w
            | Some sid \<Rightarrow> if sid = '''' then getCurrentSection w else Inr sid) of
        Inl e \<Rightarrow> Threw e w
      | Inr sid \<Rightarrow>
          let w1 = w\<lparr> currentSection := sid \<rparr>;
              w2 = fold clear_link (navLinks w1) w1
          in case nv_querySelector w2 (nav_link_selector sid) of
               Inl e \<Rightarrow> Threw e w2
             | Inr None \<Rightarrow> Returned w2
             | Inr (Some activeLink) \<Rightarrow>
                 Returned (setAttribute activeLink ''aria-current'' ''page''
                   (helpers_addClass (Some activeLink) ''active'' w2)))"

definition handleGetStarted :: "nav_page \<Rightarrow> nav_page result" where
  "handleGetStarted w =
     (case (case find_section w ''contact'' of
              Inl e \<Rightarrow> Inl e
            | Inr (Some element) \<Rightarrow> Inr (Some element)
            | Inr None \<Rightarrow> nv_querySelector w ''.hero-section'') of
        Inl e \<Rightarrow> Threw e w
      | Inr contactSection \<Rightarrow>
          Returned (helpers_dispatchEvent ''getStartedClicked''
            (scrollToElement contactSection w)))"

definition handleNavClick :: "nat \<Rightarrow> nav_page \<Rightarrow> nav_page result" where
  "handleNavClick link w =
     (let w1 = w\<lparr> nv_defaultPrevented := True \<rparr>
      in case nv_attrs w1 link ''href'' of
           None \<Rightarrow> Threw TypeError w1
         | Some href \<Rightarrow>
             let targetId = drop 1 href
             in if targetId = ''get-started'' then handleGetStarted w1
                else case find_section w1 targetId of
                       Inl e \<Rightarrow> Threw e w1
                     | Inr (Some targetElement) \<Rightarrow>
                         then_do
                           (updateActiveNavItem (Some targetId)
                              (scrollToElement (Some targetElement) w1))
                           (\<lambda>w2. Returned
                              (if isMobile (nv_metrics w2) \<and> isMobileMenuOpen w2
                               then nv_setTimeout CloseMenu 300 w2 else w2))
                     | Inr None \<Rightarrow>
                         Returned (console ''warn''
                           (''Target element not found: '' @ targetId) w1))"

text \<open>
  A page for the examples, after \<open>Navigation.init\<close> on a desktop window: the header
  (element 9, 60 pixels high) holds the menu button (2) and the navigation (3) with
  links to \<open>#about\<close> (4), \<open>#missing\<close> (5) and \<open>#get-started\<close> (6); the sections
  \<open>about\<close> (7) and \<open>contact\<close> (8) start at 1000 and 3000 pixels. The scripts of the
  repository put no function named \<open>easeInOutQuad\<close> on the global object.
\<close>

definition sample_page :: nav_page where
  "sample_page =
     \<lparr> isMobileMenuOpen = False, currentSection = ''home'',
       mobileMenuBtn = Some 2, mainNav = Some 3, navLinks = [4, 5, 6], header = Some 9,
       nv_classes = (\<lambda>x. if x = 3 then [''main-nav''] else []),
       nv_attrs = (\<lambda>x. if x = 2 then [''aria-expanded'' \<mapsto> ''false'']
                        else if x = 4 then [''href'' \<mapsto> ''#about'']
                        else if x = 5 then [''href'' \<mapsto> ''#missing'']
                        else if x = 6 then [''href'' \<mapsto> ''#get-started'']
                        else Map.empty),
       nv_textContent = (\<lambda>x. if x = 2 then glyph_menu else ''''),
       nv_offsetTop = (\<lambda>x. if x = 7 then 1000 else if x = 8 then 3000 else 0),
       nv_offsetHeight = (\<lambda>x. if x = 9 then 60 else 0),
       nv_getElementById = [''about'' \<mapsto> 7, ''contact'' \<mapsto> 8],
       nv_querySelector = (\<lambda>selector.
          if selector = nav_link_selector ''about'' then Inr (Some 4) else Inr None),
       nv_first_link = (\<lambda>x. if x = 3 then Some 4 else None),
       nv_metrics = \<lparr> clientWidth = 1280, innerWidth = 1280,
                      clientHeight = 720, innerHeight = 720 \<rparr>,
       nv_pageYOffset = 0,
       nv_global_functions = Map.empty,
       nv_defaultPrevented = False, nv_console = [], nv_dispatched = [],
       nv_timeouts = [], nv_frames = [], nv_scrollTo_calls = [], nv_focus = None \<rparr>"

text \<open>
  The sample page with one more link (element 11), to \<open>#a"b\<close>: an id with a double
  quote in it, which no element has. The selector that \<open>handleNavClick\<close> builds from
  it is \<open>[data-section="a"b"]\<close>; the quoted value ends after \<open>a\<close>, the rest does not
  close the attribute selector, and the browser's \<open>querySelector\<close> throws a
  \<open>SyntaxError\<close> for it.
\<close>

definition quoted_id :: string where
  "quoted_id = ''a'' @ [CHR 0x22] @ ''b''"

definition quoted_page :: nav_page where
  "quoted_page =
     sample_page
       \<lparr> navLinks := [4, 5, 6, 11],
         nv_attrs := (nv_attrs sample_page)(11 := [''href'' \<mapsto> ''#'' @ quoted_id]),
         nv_querySelector := (\<lambda>selector.
            if selector = data_section_selector quoted_id then Inl SyntaxError
            else nv_querySelector sample_page selector) \<rparr>"

section \<open>Breakpoint classification\<close>

lemma breakpoint_xl:
  "(getCurrentBreakpoint m = ''xl'') = (1400 \<le> width (getViewportSize m))"
  by (simp add: getCurrentBreakpoint_def Let_def)

lemma breakpoint_lg:
  "(getCurrentBreakpoint m = ''lg'') =
     (1024 \<le> width (getViewportSize m) \<and> width (getViewportSize m) < 1400)"
  by (simp add: getCurrentBreakpoint_def Let_def)

lemma breakpoint_md:
  "(getCurrentBreakpoint m = ''md'') =
     (768 \<le> width (getViewportSize m) \<and> width (getViewportSize m) < 1024)"
  by (simp add: getCurrentBreakpoint_def Let_def)

lemma breakpoint_sm:
  "(getCurrentBreakpoint m = ''sm'') =
     (480 \<le> width (getViewportSize m) \<and> width (getViewportSize m) < 768)"
  by (simp add: getCurrentBreakpoint_def Let_def)

lemma breakpoint_xs:
  "(getCurrentBreakpoint m = ''xs'') = (width (getViewportSize m) < 480)"
  by (simp add: getCurrentBreakpoint_def Let_def)

lemma breakpoint_label:
  "getCurrentBreakpoint m \<in> {''xl'', ''lg'', ''md'', ''sm'', ''xs''}"
  by (simp add: getCurrentBreakpoint_def Let_def)

text \<open>
  C1. For every viewport width \<open>w\<close> (the width \<open>getViewportSize\<close> returns),
  \<open>getCurrentBreakpoint\<close> returns one of the five labels, by the half-open intervals
  \<open>[1400,\<infinity>)\<close> xl, \<open>[1024,1400)\<close> lg, \<open>[768,1024)\<close> md, \<open>[480,768)\<close> sm and below 480 xs;
  \<open>isMobile\<close>, \<open>isTablet\<close> and \<open>isDesktop\<close> hold exactly when \<open>w \<le> 768\<close>,
  \<open>768 < w \<le> 1024\<close> and \<open>w > 1024\<close>. At width 800 the viewport is not mobile, is a
  tablet and has breakpoint md; at width 768 it is mobile and has breakpoint md.
\<close>

theorem breakpoint_classification:
  fixes m :: window_metrics
  shows "(getCurrentBreakpoint m = ''xl'') = (1400 \<le> width (getViewportSize m))
    \<and> (getCurrentBreakpoint m = ''lg'') =
        (1024 \<le> width (getViewportSize m) \<and> width (getViewportSize m) < 1400)
    \<and> (getCurrentBreakpoint m = ''md'') =
        (768 \<le> width (getViewportSize m) \<and> width (getViewportSize m) < 1024)
    \<and> (getCurrentBreakpoint m = ''sm'') =
        (480 \<le> width (getViewportSize m) \<and> width (getViewportSize m) < 768)
    \<and> (getCurrentBreakpoint m = ''xs'') = (width (getViewportSize m) < 480)
    \<and> getCurrentBreakpoint m \<in> {''xl'', ''lg'', ''md'', ''sm'', ''xs''}
    \<and> isMobile m = (width (getViewportSize m) \<le> 768)
    \<and> isTablet m = (768 < width (getViewportSize m) \<and> width (getViewportSize m) \<le> 1024)
    \<and> isDesktop m = (1024 < width (getViewportSize m))
    \<and> (width (getViewportSize m) = 800 \<longrightarrow>
          \<not> isMobile m \<and> isTablet m \<and> getCurrentBreakpoint m = ''md'')
    \<and> (width (getViewportSize m) = 768 \<longrightarrow>
          isMobile m \<and> getCurrentBreakpoint m = ''md'')"
proof -
  have mobile: "isMobile m = (width (getViewportSize m) \<le> 768)"
    by (simp add: isMobile_def)
  have tablet: "isTablet m = (768 < width (getViewportSize m) \<and> width (getViewportSize m) \<le> 1024)"
    by (simp add: isTablet_def Let_def)
  have desktop: "isDesktop m = (1024 < width (getViewportSize m))"
    by (simp add: isDesktop_def)
  have at800: "width (getViewportSize m) = 800 \<longrightarrow>
      \<not> isMobile m \<and> isTablet m \<and> getCurrentBreakpoint m = ''md''"
    by (simp add: mobile tablet breakpoint_md)
  have at768: "width (getViewportSize m) = 768 \<longrightarrow>
      isMobile m \<and> getCurrentBreakpoint m = ''md''"
    by (simp add: mobile breakpoint_md)
  show ?thesis
    by (intro conjI) (rule breakpoint_xl breakpoint_lg breakpoint_md breakpoint_sm
        breakpoint_xs breakpoint_label mobile tablet desktop at800 at768)+
qed

theorem breakpoint_classification_witness:
  "width (getViewportSize \<lparr>clientWidth = 800, innerWidth = 785, clientHeight = 600, innerHeight = 600\<rparr>) = 800
   \<and> \<not> isMobile \<lparr>clientWidth = 800, innerWidth = 785, clientHeight = 600, innerHeight = 600\<rparr>
   \<and> isTablet \<lparr>clientWidth = 800, innerWidth = 785, clientHeight = 600, innerHeight = 600\<rparr>
   \<and> getCurrentBreakpoint \<lparr>clientWidth = 800, innerWidth = 785, clientHeight = 600, innerHeight = 600\<rparr> = ''md''
   \<and> width (getViewportSize \<lparr>clientWidth = 768, innerWidth = 768, clientHeight = 600, innerHeight = 600\<rparr>) = 768
   \<and> isMobile \<lparr>clientWidth = 768, innerWidth = 768, clientHeight = 600, innerHeight = 600\<rparr>
   \<and> getCurrentBreakpoint \<lparr>clientWidth = 768, innerWidth = 768, clientHeight = 600, innerHeight = 600\<rparr> = ''md''"
proof -
  have w800: "width (getViewportSize \<lparr>clientWidth = 800, innerWidth = 785, clientHeight = 600, innerHeight = 600\<rparr>) = 800"
    by (simp add: getViewportSize_def or_zero_def)
  have w768: "width (getViewportSize \<lparr>clientWidth = 768, innerWidth = 768, clientHeight = 600, innerHeight = 600\<rparr>) = 768"
    by (simp add: getViewportSize_def or_zero_def)
  have a: "\<not> isMobile \<lparr>clientWidth = 800, innerWidth = 785, clientHeight = 600, innerHeight = 600\<rparr>
      \<and> isTablet \<lparr>clientWidth = 800, innerWidth = 785, clientHeight = 600, innerHeight = 600\<rparr>
      \<and> getCurrentBreakpoint \<lparr>clientWidth = 800, innerWidth = 785, clientHeight = 600, innerHeight = 600\<rparr> = ''md''"
    using w800 breakpoint_classification
      [of "\<lparr>clientWidth = 800, innerWidth = 785, clientHeight = 600, innerHeight = 600\<rparr>"]
    by (elim conjE) (erule mp)
  have b: "isMobile \<lparr>clientWidth = 768, innerWidth = 768, clientHeight = 600, innerHeight = 600\<rparr>
      \<and> getCurrentBreakpoint \<lparr>clientWidth = 768, innerWidth = 768, clientHeight = 600, innerHeight = 600\<rparr> = ''md''"
    using w768 breakpoint_classification
      [of "\<lparr>clientWidth = 768, innerWidth = 768, clientHeight = 600, innerHeight = 600\<rparr>"]
    by (elim conjE) (erule mp)
  show ?thesis using w800 w768 a b by (intro conjI) (erule conjE | assumption)+
qed

section \<open>Scroll lock without a preceding lock\<close>

text \<open>
  C10. When the body's \<open>scrollY\<close> data attribute is unset (no \<open>lockScroll\<close> came
  before), \<open>unlockScroll\<close> clears the body's position, top and width inline styles,
  makes no call to \<open>window.scrollTo\<close>, and leaves the window's scroll position and
  the data attribute as they were.
\<close>

theorem unlockScroll_without_lock:
  assumes "dataset_scrollY p = None"
  shows "unlockScroll p = p\<lparr> body_position := '''', body_top := '''', body_width := '''' \<rparr>
    \<and> scrollTo_calls (unlockScroll p) = scrollTo_calls p
    \<and> pageYOffset (unlockScroll p) = pageYOffset p
    \<and> docScrollTop (unlockScroll p) = docScrollTop p
    \<and> bodyScrollTop (unlockScroll p) = bodyScrollTop p
    \<and> dataset_scrollY (unlockScroll p) = None"
  using assms by (simp add: unlockScroll_def)

theorem unlockScroll_without_lock_witness:
  "unlockScroll \<lparr> body_position = ''relative'', body_top = ''4px'', body_width = ''90%'',
        dataset_scrollY = None, pageYOffset = 250, docScrollTop = 250, bodyScrollTop = 0,
        scrollTo_calls = [] \<rparr>
   = \<lparr> body_position = '''', body_top = '''', body_width = '''',
        dataset_scrollY = None, pageYOffset = 250, docScrollTop = 250, bodyScrollTop = 0,
        scrollTo_calls = [] \<rparr>"
  using unlockScroll_without_lock [of "\<lparr> body_position = ''relative'', body_top = ''4px'',
        body_width = ''90%'', dataset_scrollY = None, pageYOffset = 250, docScrollTop = 250,
        bodyScrollTop = 0, scrollTo_calls = [] \<rparr>"]
  by simp

section \<open>Scroll progress\<close>

lemma onScroll_progress_nonzero_divisor:
  assumes "scrollHeight \<noteq> height (getViewportSize m)"
  shows "sp_progress (onScroll_payload m p scrollHeight) =
     Finite (min 1 (max 0 (of_int (getScrollPosition_y p)
        / of_int (scrollHeight - height (getViewportSize m)))))"
  using assms by (simp add: onScroll_payload_def js_div_def Let_def)

lemma onScroll_progress_zero_divisor_scrolled:
  assumes "scrollHeight = height (getViewportSize m)" and "getScrollPosition_y p > 0"
  shows "sp_progress (onScroll_payload m p scrollHeight) = Finite 1"
  using assms by (simp add: onScroll_payload_def js_div_def Let_def)

text \<open>
  C7. The progress handed to the callback of \<open>onScroll\<close> is
  \<open>scrollY / (documentHeight - viewportHeight)\<close> clamped to \<open>[0,1]\<close>, and a defined
  value in \<open>[0,1]\<close> when the document is as high as the viewport. The code does not do
  that: at the top of a page whose \<open>scrollHeight\<close> equals the viewport height
  (\<open>scrollY = 0\<close>, both heights 600) the quotient is \<open>0 / 0\<close>, and \<open>Math.max\<close> and
  \<open>Math.min\<close> pass the \<open>NaN\<close> on to the callback.
\<close>

theorem onScroll_progress_is_NaN:
  "sp_progress (onScroll_payload
      \<lparr> clientWidth = 1280, innerWidth = 1280, clientHeight = 600, innerHeight = 600 \<rparr>
      \<lparr> body_position = '''', body_top = '''', body_width = '''', dataset_scrollY = None,
        pageYOffset = 0, docScrollTop = 0, bodyScrollTop = 0, scrollTo_calls = [] \<rparr>
      600) = NaN"
  by (simp add: onScroll_payload_def js_div_def getViewportSize_def or_zero_def
      getScrollPosition_y_def Let_def)

section \<open>Laptop sizing\<close>

lemma plus50px_tiers:
  "plus50px ''800px'' = ''850px''" "plus50px ''750px'' = ''800px''"
  "plus50px ''650px'' = ''700px''" "plus50px ''580px'' = ''630px''"
  "plus50px ''520px'' = ''570px''" "plus50px ''450px'' = ''500px''"
  by (simp_all add: plus50px_def parseInt_def parse_digits_def is_digit_def is_space_def
      digits_value_def js_toString_def digit_char_def)

lemma adjustSizeForViewport_image:
  "laptopImage (adjustSizeForViewport s) =
     (case laptopImage s of None \<Rightarrow> None
      | Some _ \<Rightarrow> Some
         (if le_innerWidth s \<ge> 1400 then ''800px''
          else if le_innerWidth s \<ge> 1200 then ''750px''
          else if le_innerWidth s \<ge> 992 then ''650px''
          else if le_innerWidth s \<ge> 768 then ''580px''
          else if le_innerWidth s \<ge> 576 then ''520px''
          else ''450px''))"
  by (simp add: adjustSizeForViewport_def Let_def split: option.splits)

lemma adjustSizeForViewport_frame:
  "laptopFrame (adjustSizeForViewport s) =
     (case laptopFrame s of None \<Rightarrow> None
      | Some _ \<Rightarrow> Some
         (if le_innerWidth s \<ge> 1400 then ''850px''
          else if le_innerWidth s \<ge> 1200 then ''800px''
          else if le_innerWidth s \<ge> 992 then ''700px''
          else if le_innerWidth s \<ge> 768 then ''630px''
          else if le_innerWidth s \<ge> 576 then ''570px''
          else ''500px''))"
  by (simp add: adjustSizeForViewport_def Let_def plus50px_tiers split: option.splits)

lemma adjustSizeForViewport_showcase:
  "laptopShowcase (adjustSizeForViewport s) =
     (case laptopShowcase s of None \<Rightarrow> None
      | Some _ \<Rightarrow> Some
         (if le_innerWidth s \<ge> 1400 then ''850px''
          else if le_innerWidth s \<ge> 1200 then ''800px''
          else if le_innerWidth s \<ge> 992 then ''700px''
          else if le_innerWidth s \<ge> 768 then ''630px''
          else if le_innerWidth s \<ge> 576 then ''570px''
          else ''500px''))"
  by (simp add: adjustSizeForViewport_def Let_def plus50px_tiers split: option.splits)

lemma adjustSizeForViewport_frame_conditions:
  "le_timeouts (adjustSizeForViewport s) = le_timeouts s"
  "le_innerWidth (adjustSizeForViewport s) = le_innerWidth s"
  "le_resize_listeners (adjustSizeForViewport s) = le_resize_listeners s"
  by (simp_all add: adjustSizeForViewport_def Let_def split: option.splits)

lemma run_le_listener_id: "run_le_listener l s = s"
  by (cases l) (simp add: Let_def)

lemma fold_run_le_listener: "fold run_le_listener ls s = s"
  by (induction ls) (simp_all add: run_le_listener_id)

lemma window_resize_changes_width_only: "window_resize w s = s\<lparr> le_innerWidth := w \<rparr>"
  by (simp add: window_resize_def fold_run_le_listener)

text \<open>
  C9. On every resize of the viewport the enhancer recomputes and applies the
  max-width of the laptop image, frame and showcase by six tiers; at width 1500 the
  image gets 800px. The tiers are those of \<open>adjustSizeForViewport\<close>, and at set-up
  with width 1500 the image does get 800px. But a resize does not reach
  \<open>adjustSizeForViewport\<close>: the resize listener only builds the debounced function and
  never calls it. After set-up at width 1500, a resize to width 500 and the firing of
  every pending timer, the image still has 800px and the frame 850px, where
  \<open>adjustSizeForViewport\<close> at width 500 gives 450px.
\<close>

theorem laptop_resize_not_applied:
  "laptopImage (enhanceLaptopSize (laptop_page 1500)) = Some ''800px''
   \<and> laptopImage (le_run_timeouts (window_resize 500 (enhanceLaptopSize (laptop_page 1500))))
       = Some ''800px''
   \<and> laptopFrame (le_run_timeouts (window_resize 500 (enhanceLaptopSize (laptop_page 1500))))
       = Some ''850px''
   \<and> le_timeouts (window_resize 500 (enhanceLaptopSize (laptop_page 1500))) = []
   \<and> laptopImage (adjustSizeForViewport (window_resize 500 (enhanceLaptopSize (laptop_page 1500))))
       = Some ''450px''"
  by (simp add: window_resize_changes_width_only le_run_timeouts_def enhanceLaptopSize_def
      adjustSizeForViewport_image adjustSizeForViewport_frame
      adjustSizeForViewport_frame_conditions laptop_page_def Let_def)


section \<open>Viewport change notification\<close>

lemma onViewportChange_unfold:
  "onViewportChange callback debounceMs w =
     (vu_next_function w,
      (addEventListener ''orientationchange'' (vu_next_function w)
        (addEventListener ''resize'' (vu_next_function w)
          (w\<lparr> vu_store := (vu_store w)(vu_next_function w \<mapsto>
                 \<lparr> d_callback = callback, d_wait = debounceMs, d_immediate = False,
                   d_timeout = None \<rparr>),
               vu_next_function := Suc (vu_next_function w) \<rparr>)))
       \<lparr> vu_timers := vu_timers w @ [(vu_next_timer w, vu_now w + debounceMs, vu_next_function w)],
         vu_next_timer := Suc (vu_next_timer w),
         vu_store := (vu_store w)(vu_next_function w \<mapsto>
                 \<lparr> d_callback = callback, d_wait = debounceMs, d_immediate = False,
                   d_timeout = Some (vu_next_timer w) \<rparr>) \<rparr>)"
  by (simp add: onViewportChange_def debounce_def executedFunction_def setTimeout_def
      clearTimeout_def addEventListener_def Let_def)

lemma onViewportChange_listeners:
  "(''resize'', fst (onViewportChange callback debounceMs w))
      \<in> set (vu_listeners (snd (onViewportChange callback debounceMs w)))"
  "(''orientationchange'', fst (onViewportChange callback debounceMs w))
      \<in> set (vu_listeners (snd (onViewportChange callback debounceMs w)))"
  by (simp_all add: onViewportChange_unfold addEventListener_def)

lemma onViewportChange_calls:
  "vu_calls (snd (onViewportChange callback debounceMs w)) = vu_calls w"
  by (simp add: onViewportChange_unfold addEventListener_def)

lemma viewport_cleanup_listeners:
  "vu_listeners (viewport_cleanup f w) =
     filter (\<lambda>l. l \<noteq> (''resize'', f) \<and> l \<noteq> (''orientationchange'', f)) (vu_listeners w)"
  by (simp add: viewport_cleanup_def removeEventListener_def conj_commute)

lemma onViewportChange_then_wait:
  assumes "vu_timers w = []"
  shows "vu_calls (advance_time debounceMs (snd (onViewportChange callback debounceMs w))) =
     vu_calls w @ [(callback, getViewportSize (vu_metrics w), getCurrentBreakpoint (vu_metrics w))]"
  using assms
  by (simp add: onViewportChange_unfold addEventListener_def advance_time_def later_def
      viewport_func_def Let_def)

lemma onViewportChange_before_wait:
  assumes "vu_timers w = []" and "dt < debounceMs"
  shows "vu_calls (advance_time dt (snd (onViewportChange callback debounceMs w))) = vu_calls w"
  using assms
  by (simp add: onViewportChange_unfold addEventListener_def advance_time_def Let_def)

lemma viewport_cleanup_restores:
  assumes "\<forall>l \<in> set (vu_listeners w). snd l < vu_next_function w"
  shows "vu_listeners (viewport_cleanup (fst (onViewportChange callback debounceMs w))
           (snd (onViewportChange callback debounceMs w))) = vu_listeners w"
proof -
  have notin: "(t, vu_next_function w) \<notin> set (vu_listeners w)" for t
    using assms by fastforce
  have "filter (\<lambda>l. l \<noteq> (''resize'', vu_next_function w)
            \<and> l \<noteq> (''orientationchange'', vu_next_function w)) (vu_listeners w)
        = vu_listeners w"
    using notin by (intro filter_True) auto
  then show ?thesis
    using notin
    by (simp add: viewport_cleanup_listeners onViewportChange_unfold addEventListener_def)
qed

lemma resize_restarts_the_wait:
  assumes "vu_timers w = []" and "vu_listeners w = []" and "dt < debounceMs"
  shows "vu_calls (advance_time (debounceMs - 1) (fire_event ''resize''
            (advance_time dt (snd (onViewportChange callback debounceMs w))))) = vu_calls w"
    and "vu_calls (advance_time debounceMs (fire_event ''resize''
            (advance_time dt (snd (onViewportChange callback debounceMs w))))) =
         vu_calls w @ [(callback, getViewportSize (vu_metrics w),
                        getCurrentBreakpoint (vu_metrics w))]"
  using assms
  by (simp_all add: onViewportChange_unfold addEventListener_def advance_time_def later_def
      fire_event_def executedFunction_def clearTimeout_def setTimeout_def
      viewport_func_def Let_def)

text \<open>
  C8, as the code has it. \<open>onViewportChange(callback, debounceMs)\<close> registers one
  debounced function for both the resize and the orientationchange event and returns a
  clean-up function that removes it from both. The initial call goes through that
  debounced function: \<open>callback\<close> is not invoked during the registration nor at any
  time before \<open>debounceMs\<close> milliseconds have passed, and it is invoked once, with the
  viewport and the breakpoint, when they have passed without an event (no other timer
  pending). Where the registered functions of the window are older than the new one,
  the clean-up leaves the listeners as they were before the registration.
\<close>

theorem onViewportChange_registration:
  assumes reg: "onViewportChange callback debounceMs w = (f, w')"
    and idle: "vu_timers w = []"
    and older: "\<forall>l \<in> set (vu_listeners w). snd l < vu_next_function w"
  shows "(''resize'', f) \<in> set (vu_listeners w')
    \<and> (''orientationchange'', f) \<in> set (vu_listeners w')
    \<and> map_option d_callback (vu_store w' f) = Some callback
    \<and> map_option d_wait (vu_store w' f) = Some debounceMs
    \<and> vu_calls w' = vu_calls w
    \<and> (\<forall>dt < debounceMs. vu_calls (advance_time dt w') = vu_calls w)
    \<and> vu_calls (advance_time debounceMs w') =
        vu_calls w @ [(callback, getViewportSize (vu_metrics w),
                       getCurrentBreakpoint (vu_metrics w))]
    \<and> (\<forall>x. (''resize'', f) \<notin> set (vu_listeners (viewport_cleanup f x))
           \<and> (''orientationchange'', f) \<notin> set (vu_listeners (viewport_cleanup f x)))
    \<and> vu_listeners (viewport_cleanup f w') = vu_listeners w"
proof -
  have f: "f = fst (onViewportChange callback debounceMs w)"
    and w': "w' = snd (onViewportChange callback debounceMs w)"
    using reg by simp_all
  have store: "map_option d_callback (vu_store w' f) = Some callback"
      "map_option d_wait (vu_store w' f) = Some debounceMs"
    unfolding f w' by (simp_all add: onViewportChange_unfold addEventListener_def)
  have before: "\<forall>dt < debounceMs. vu_calls (advance_time dt w') = vu_calls w"
    unfolding w' using onViewportChange_before_wait [OF idle] by blast
  have removed: "\<forall>x. (''resize'', f) \<notin> set (vu_listeners (viewport_cleanup f x))
           \<and> (''orientationchange'', f) \<notin> set (vu_listeners (viewport_cleanup f x))"
    by (simp add: viewport_cleanup_listeners)
  show ?thesis
    using onViewportChange_listeners [of callback debounceMs w]
      onViewportChange_calls [of callback debounceMs w]
      onViewportChange_then_wait [OF idle, of debounceMs callback]
      viewport_cleanup_restores [OF older, of callback debounceMs]
      store before removed
    unfolding f [symmetric] w' [symmetric] by blast
qed

theorem onViewportChange_registration_witness:
  "onViewportChange 7 250 (fresh_window 1280 720) =
      (0, snd (onViewportChange 7 250 (fresh_window 1280 720)))
   \<and> vu_timers (fresh_window 1280 720) = []
   \<and> vu_listeners (fresh_window 1280 720) = []
   \<and> vu_listeners (snd (onViewportChange 7 250 (fresh_window 1280 720))) =
        [(''resize'', 0), (''orientationchange'', 0)]
   \<and> vu_calls (advance_time 100 (snd (onViewportChange 7 250 (fresh_window 1280 720)))) = []
   \<and> vu_calls (advance_time 250 (snd (onViewportChange 7 250 (fresh_window 1280 720)))) =
        [(7, \<lparr> width = 1280, height = 720 \<rparr>, ''lg'')]
   \<and> vu_listeners (viewport_cleanup 0 (snd (onViewportChange 7 250 (fresh_window 1280 720)))) = []"
proof -
  have reg: "onViewportChange 7 250 (fresh_window 1280 720) =
      (0, snd (onViewportChange 7 250 (fresh_window 1280 720)))"
    by (simp add: onViewportChange_unfold fresh_window_def)
  have idle: "vu_timers (fresh_window 1280 720) = []"
    by (simp add: fresh_window_def)
  have older: "\<forall>l \<in> set (vu_listeners (fresh_window 1280 720)).
         snd l < vu_next_function (fresh_window 1280 720)"
    by (simp add: fresh_window_def)
  have ls: "vu_listeners (snd (onViewportChange 7 250 (fresh_window 1280 720))) =
        [(''resize'', 0), (''orientationchange'', 0)]"
    by (simp add: onViewportChange_unfold fresh_window_def addEventListener_def)
  have vals: "vu_calls (fresh_window 1280 720) = []"
      "getViewportSize (vu_metrics (fresh_window 1280 720)) = \<lparr> width = 1280, height = 720 \<rparr>"
      "getCurrentBreakpoint (vu_metrics (fresh_window 1280 720)) = ''lg''"
      "vu_listeners (fresh_window 1280 720) = []"
    by (simp_all add: fresh_window_def getViewportSize_def getCurrentBreakpoint_def or_zero_def)
  have "(100::nat) < 250" by simp
  then show ?thesis
    using onViewportChange_registration [OF reg idle older] reg idle ls vals
    by (metis append_Nil)
qed

text \<open>
  C8 as stated has the callback invoked once immediately upon registration. On a fresh
  window, after \<open>onViewportChange(callback, 250)\<close> has returned, the callback has
  received no call, and 249 milliseconds later it still has received none.
\<close>

theorem onViewportChange_no_immediate_call:
  "vu_calls (snd (onViewportChange 7 250 (fresh_window 1280 720))) = []
   \<and> vu_calls (advance_time 249 (snd (onViewportChange 7 250 (fresh_window 1280 720)))) = []"
  by (simp add: onViewportChange_unfold addEventListener_def advance_time_def
      fresh_window_def Let_def)


section \<open>Entrance animation\<close>

lemma animateElement_noop:
  "element \<in> animatedElements s \<or> prefersReducedMotion s \<Longrightarrow> animateElement d element s = s"
  by (auto simp add: animateElement_def)

lemma animated_set_after_dispatch:
  "animatedElements (animateHeroHeading x s) = animatedElements s"
  "animatedElements (animateLaptopFrame x s) = animatedElements s"
  "animatedElements (animateCTAButton x s) = animatedElements s"
  "animatedElements (animateGeneric x s) = animatedElements s"
  by (simp_all add: animateHeroHeading_def animateLaptopFrame_def animateCTAButton_def
      animateGeneric_def an_setTimeout_def set_style_def)

lemma animatedElements_animateElement:
  "animatedElements (animateElement d x s) =
     (if prefersReducedMotion s then animatedElements s else insert x (animatedElements s))"
  by (auto simp add: animateElement_def Let_def animated_set_after_dispatch)

lemma timeouts_after_dispatch:
  "length (an_timeouts (animateHeroHeading x s)) = Suc (length (an_timeouts s))"
  "length (an_timeouts (animateLaptopFrame x s)) = Suc (length (an_timeouts s))"
  "length (an_timeouts (animateCTAButton x s)) = Suc (length (an_timeouts s))"
  "length (an_timeouts (animateGeneric x s)) = Suc (length (an_timeouts s))"
  by (simp_all add: animateHeroHeading_def animateLaptopFrame_def animateCTAButton_def
      animateGeneric_def an_setTimeout_def set_style_def)

lemma animateElement_first_timeouts:
  "\<not> prefersReducedMotion s \<Longrightarrow> element \<notin> animatedElements s \<Longrightarrow>
     length (an_timeouts (animateElement d element s)) = Suc (length (an_timeouts s))"
  by (simp add: animateElement_def Let_def timeouts_after_dispatch)

lemma animatedElements_screen_forEach:
  "animatedElements (screen_forEach xs i s) = animatedElements s"
  by (induction xs arbitrary: i s) (simp_all add: an_setTimeout_def set_style_def)

lemma animatedElements_run_anim_task:
  "animatedElements (run_anim_task d t s) = animatedElements s"
  by (cases t)
    (simp_all add: an_setTimeout_def set_style_def animateScreenContent_def
      animatedElements_screen_forEach)

lemma animatedElements_observer_callback:
  "animatedElements s \<subseteq> animatedElements (observer_callback d i entries s)"
proof (induction entries arbitrary: s)
  case Nil
  show ?case by simp
next
  case (Cons entry entries)
  obtain target isIntersecting where entry: "entry = (target, isIntersecting)"
    by (cases entry)
  let ?s1 = "if isIntersecting then
          (let s1 = animateElement d target s
           in if i < length (observers s1)
              then s1\<lparr> observers := (observers s1)[i := removeAll target (observers s1 ! i)] \<rparr>
              else s1)
        else s"
  have "animatedElements s \<subseteq> animatedElements ?s1"
    by (auto simp add: Let_def animatedElements_animateElement)
  also have "\<dots> \<subseteq> animatedElements (observer_callback d i entries ?s1)"
    by (rule Cons.IH)
  finally show ?case by (simp add: entry)
qed

lemma animatedElements_setup:
  "animatedElements (setupScrollAnimations d s) = animatedElements s"
  by (simp add: setupScrollAnimations_def Let_def)

lemma reenter_viewport_noop:
  assumes "element \<in> animatedElements s"
  shows "an_style (observer_callback d i [(element, True)] s) = an_style s"
    and "an_timeouts (observer_callback d i [(element, True)] s) = an_timeouts s"
    and "an_classes (observer_callback d i [(element, True)] s) = an_classes s"
  using assms by (simp_all add: animateElement_noop Let_def)

text \<open>
  C3, as the code has it. When the reduced-motion preference is not active at the first
  call, \<open>animateElement\<close> puts the element into the set of animated elements and starts
  its animation once (one timer for the transition when the element was not in the set
  before); a second call changes nothing. Once an element is in the set it stays there
  through further calls of \<open>animateElement\<close> on any element, through the timers, the
  observer's callback and \<open>setupScrollAnimations\<close>, every call of \<open>animateElement\<close>
  on it is without effect, and an observer entry that reports it intersecting again
  leaves styles, classes and timers as they are. A call made while the preference is
  active changes nothing: the element is neither animated nor put into the set.
\<close>

theorem animateElement_idempotent:
  assumes "\<not> prefersReducedMotion s"
  shows "element \<in> animatedElements (animateElement d element s)
    \<and> animateElement d element (animateElement d element s) = animateElement d element s
    \<and> (element \<notin> animatedElements s \<longrightarrow>
          length (an_timeouts (animateElement d element s)) = Suc (length (an_timeouts s)))
    \<and> (\<forall>s'. element \<in> animatedElements s' \<longrightarrow>
          animateElement d element s' = s'
        \<and> (\<forall>x. element \<in> animatedElements (animateElement d x s'))
        \<and> (\<forall>t. element \<in> animatedElements (run_anim_task d t s'))
        \<and> (\<forall>i entries. element \<in> animatedElements (observer_callback d i entries s'))
        \<and> element \<in> animatedElements (setupScrollAnimations d s')
        \<and> (\<forall>i. an_style (observer_callback d i [(element, True)] s') = an_style s'
              \<and> an_timeouts (observer_callback d i [(element, True)] s') = an_timeouts s'
              \<and> an_classes (observer_callback d i [(element, True)] s') = an_classes s'))
    \<and> (\<forall>s'. prefersReducedMotion s' \<longrightarrow> animateElement d element s' = s')"
proof -
  have reduced: "\<forall>s'. prefersReducedMotion s' \<longrightarrow> animateElement d element s' = s'"
    by (simp add: animateElement_noop)
  have first: "element \<in> animatedElements (animateElement d element s)"
    using assms by (simp add: animatedElements_animateElement)
  have second: "animateElement d element (animateElement d element s) = animateElement d element s"
    using first by (rule animateElement_noop [OF disjI1])
  have once: "element \<notin> animatedElements s \<longrightarrow>
      length (an_timeouts (animateElement d element s)) = Suc (length (an_timeouts s))"
    using assms by (simp add: animateElement_first_timeouts)
  have later_calls: "\<forall>s'. element \<in> animatedElements s' \<longrightarrow>
          animateElement d element s' = s'
        \<and> (\<forall>x. element \<in> animatedElements (animateElement d x s'))
        \<and> (\<forall>t. element \<in> animatedElements (run_anim_task d t s'))
        \<and> (\<forall>i entries. element \<in> animatedElements (observer_callback d i entries s'))
        \<and> element \<in> animatedElements (setupScrollAnimations d s')
        \<and> (\<forall>i. an_style (observer_callback d i [(element, True)] s') = an_style s'
              \<and> an_timeouts (observer_callback d i [(element, True)] s') = an_timeouts s'
              \<and> an_classes (observer_callback d i [(element, True)] s') = an_classes s')"
  proof (intro allI impI conjI)
    fix s' :: animations
    assume mem: "element \<in> animatedElements s'"
    show "animateElement d element s' = s'"
      using mem by (rule animateElement_noop [OF disjI1])
    show "element \<in> animatedElements (animateElement d x s')" for x
      using mem by (simp add: animatedElements_animateElement)
    show "element \<in> animatedElements (run_anim_task d t s')" for t
      using mem by (simp add: animatedElements_run_anim_task)
    show "element \<in> animatedElements (observer_callback d i entries s')" for i entries
      using mem animatedElements_observer_callback [of s' d i entries] by blast
    show "element \<in> animatedElements (setupScrollAnimations d s')"
      using mem by (simp add: animatedElements_setup)
    show "an_style (observer_callback d i [(element, True)] s') = an_style s'" for i
      using mem by (rule reenter_viewport_noop)
    show "an_timeouts (observer_callback d i [(element, True)] s') = an_timeouts s'" for i
      using mem by (rule reenter_viewport_noop)
    show "an_classes (observer_callback d i [(element, True)] s') = an_classes s'" for i
      using mem by (rule reenter_viewport_noop)
  qed
  show ?thesis using first second once later_calls reduced by blast
qed

theorem animateElement_idempotent_witness:
  "\<not> prefersReducedMotion (sample_animations False)
   \<and> 1 \<in> animatedElements (animateElement sample_dom 1 (sample_animations False))
   \<and> animateElement sample_dom 1 (animateElement sample_dom 1 (sample_animations False))
        = animateElement sample_dom 1 (sample_animations False)
   \<and> 1 \<notin> animatedElements (sample_animations False)
   \<and> length (an_timeouts (animateElement sample_dom 1 (sample_animations False))) = 1"
proof -
  have active: "\<not> prefersReducedMotion (sample_animations False)"
    by (simp add: sample_animations_def)
  have new: "1 \<notin> animatedElements (sample_animations False)"
    by (simp add: sample_animations_def)
  have none: "length (an_timeouts (sample_animations False)) = 0"
    by (simp add: sample_animations_def)
  show ?thesis
    using animateElement_idempotent [OF active, of 1 sample_dom] active new none
    by simp
qed

text \<open>
  C3 as stated holds for every element. With the reduced-motion preference active the
  first call returns at once: the heading (element 1) is not in the set of animated
  elements afterwards, and no animation has been started.
\<close>

theorem animateElement_reduced_motion_not_added:
  "1 \<notin> animatedElements (animateElement sample_dom 1 (sample_animations True))
   \<and> an_timeouts (animateElement sample_dom 1 (sample_animations True)) = []"
  by (simp add: animateElement_def sample_animations_def)

section \<open>Reduced motion\<close>

lemma load_forEach_reduced:
  assumes "prefersReducedMotion s"
  shows "prefersReducedMotion (load_forEach xs i s)
    \<and> an_timeouts (load_forEach xs i s) = an_timeouts s
    \<and> an_classes (load_forEach xs i s) = an_classes s
    \<and> (\<forall>x. transition (an_style (load_forEach xs i s) x) = transition (an_style s x)
          \<and> transform (an_style (load_forEach xs i s) x) = transform (an_style s x)
          \<and> opacity (an_style (load_forEach xs i s) x) =
              (if x \<in> set xs then ''1'' else opacity (an_style s x)))"
  using assms
proof (induction xs arbitrary: i s)
  case Nil
  then show ?case by simp
next
  case (Cons element rest)
  let ?s1 = "set_style element (\<lambda>st. st\<lparr> opacity := ''1'' \<rparr>) s"
  have step: "load_forEach (element # rest) i s = load_forEach rest (Suc i) ?s1"
    using Cons.prems by simp
  have reduced: "prefersReducedMotion ?s1"
    using Cons.prems by (simp add: set_style_def)
  have s1: "an_timeouts ?s1 = an_timeouts s" "an_classes ?s1 = an_classes s"
      "\<And>x. transition (an_style ?s1 x) = transition (an_style s x)"
      "\<And>x. transform (an_style ?s1 x) = transform (an_style s x)"
      "\<And>x. opacity (an_style ?s1 x) = (if x = element then ''1'' else opacity (an_style s x))"
    by (simp_all add: set_style_def)
  show ?case
    unfolding step using Cons.IH [OF reduced, of "Suc i"] by (simp add: s1)
qed

lemma observer_callback_reduced:
  assumes "prefersReducedMotion s"
  shows "prefersReducedMotion (observer_callback d i entries s)
    \<and> an_style (observer_callback d i entries s) = an_style s
    \<and> an_timeouts (observer_callback d i entries s) = an_timeouts s
    \<and> an_classes (observer_callback d i entries s) = an_classes s
    \<and> animatedElements (observer_callback d i entries s) = animatedElements s"
  using assms
proof (induction entries arbitrary: s)
  case Nil
  then show ?case by simp
next
  case (Cons entry entries)
  obtain target isIntersecting where entry: "entry = (target, isIntersecting)"
    by (cases entry)
  let ?s1 = "if isIntersecting then
          (let s1 = animateElement d target s
           in if i < length (observers s1)
              then s1\<lparr> observers := (observers s1)[i := removeAll target (observers s1 ! i)] \<rparr>
              else s1)
        else s"
  have noop: "animateElement d target s = s"
    using Cons.prems by (simp add: animateElement_noop)
  have s1: "prefersReducedMotion ?s1" "an_style ?s1 = an_style s"
      "an_timeouts ?s1 = an_timeouts s" "an_classes ?s1 = an_classes s"
      "animatedElements ?s1 = animatedElements s"
    using Cons.prems by (simp_all add: noop Let_def)
  show ?case
    using Cons.IH [OF s1(1)] by (simp add: entry s1)
qed

text \<open>
  A call of an entry point of the entrance animation made while the flag
  \<open>prefersReducedMotion\<close> is set leaves the transition and the transform of every
  element as they are and sets no timer: \<open>setupScrollAnimations\<close> and
  \<open>animateElement\<close> change nothing at all, the observer's callback changes no style,
  class or timer, and \<open>setupLoadAnimations\<close> only sets the opacity of the elements it
  handles to 1.
\<close>

lemma entry_points_under_reduced_motion:
  assumes "prefersReducedMotion s"
  shows "setupScrollAnimations d s = s
    \<and> animateElement d element s = s
    \<and> an_style (observer_callback d i entries s) = an_style s
    \<and> an_timeouts (observer_callback d i entries s) = an_timeouts s
    \<and> an_timeouts (setupLoadAnimations d s) = an_timeouts s
    \<and> (\<forall>x. transition (an_style (setupLoadAnimations d s) x) = transition (an_style s x)
          \<and> transform (an_style (setupLoadAnimations d s) x) = transform (an_style s x)
          \<and> opacity (an_style (setupLoadAnimations d s) x) =
              (if x \<in> set (dom_querySelectorAll d ''.logo, nav ul li'') then ''1''
               else opacity (an_style s x)))"
proof -
  have scroll: "setupScrollAnimations d s = s"
    using assms by (simp add: setupScrollAnimations_def)
  have single: "animateElement d element s = s"
    using assms by (simp add: animateElement_noop)
  show ?thesis
    using scroll single observer_callback_reduced [OF assms, of d i entries]
      load_forEach_reduced [OF assms, of "dom_querySelectorAll d ''.logo, nav ul li''" 0]
    unfolding setupLoadAnimations_def by blast
qed

lemma reveal_sets_transition:
  "transition (an_style (run_anim_task d (Reveal element timing final) s) element) = timing"
  "prefersReducedMotion (run_anim_task d (Reveal element timing final) s)
     = prefersReducedMotion s"
  by (simp_all add: set_style_def)

lemma motion_change_listener_flag:
  "prefersReducedMotion (motion_change_listener matches s) = matches"
  "an_style (motion_change_listener matches s) = an_style s"
  "an_timeouts (motion_change_listener matches s) = an_timeouts s"
  by (simp_all add: motion_change_listener_def checkMotionPreferences_def Let_def)

lemma heading_animation_started:
  "an_timeouts (animateElement sample_dom 1 (sample_animations False)) =
     [(50, Reveal 1 ''all 600ms cubic-bezier(0.4, 0, 0.2, 1)'' ''translateY(0)'')]"
  "opacity (an_style (animateElement sample_dom 1 (sample_animations False)) 1) = ''0''"
  "transition (an_style (animateElement sample_dom 1 (sample_animations False)) 1) = ''''"
  by (simp_all add: animateElement_def animateHeroHeading_def an_setTimeout_def set_style_def
      sample_animations_def sample_dom_def transition_all_def animationDuration_def
      animationEasing_def js_toString_def digit_char_def Let_def)

text \<open>
  C6. Whenever the reduced-motion preference is active, no element receives an opacity
  or transform transition from the entrance animation, and the elements it handles are
  at full opacity at once. The code does not keep that. The entry points test the flag,
  the functions they hand to \<open>setTimeout\<close> do not. On the sample page the heading is
  animated while the preference is off (opacity 0, one timer of 50 ms); the user then
  switches the preference on, which sets the flag; with the flag set the heading is
  still at opacity 0, and when the timer fires it gives the heading the transition
  \<open>all 600ms cubic-bezier(0.4, 0, 0.2, 1)\<close> while the flag is set.
\<close>

theorem reduced_motion_pending_timer_transition:
  "an_timeouts (animateElement sample_dom 1 (sample_animations False)) =
     [(50, Reveal 1 ''all 600ms cubic-bezier(0.4, 0, 0.2, 1)'' ''translateY(0)'')]
   \<and> prefersReducedMotion heading_then_reduced
   \<and> opacity (an_style heading_then_reduced 1) = ''0''
   \<and> transition (an_style heading_then_reduced 1) = ''''
   \<and> prefersReducedMotion (fire_timeout sample_dom 0 heading_then_reduced)
   \<and> transition (an_style (fire_timeout sample_dom 0 heading_then_reduced) 1) =
        ''all 600ms cubic-bezier(0.4, 0, 0.2, 1)''"
proof -
  have pending: "an_timeouts heading_then_reduced =
      [(50, Reveal 1 ''all 600ms cubic-bezier(0.4, 0, 0.2, 1)'' ''translateY(0)'')]"
    unfolding heading_then_reduced_def
    by (simp only: motion_change_listener_flag heading_animation_started)
  have flag: "prefersReducedMotion heading_then_reduced"
    unfolding heading_then_reduced_def by (simp only: motion_change_listener_flag)
  have hidden: "opacity (an_style heading_then_reduced 1) = ''0''"
      "transition (an_style heading_then_reduced 1) = ''''"
    unfolding heading_then_reduced_def
    by (simp_all only: motion_change_listener_flag heading_animation_started)
  have fired: "fire_timeout sample_dom 0 heading_then_reduced =
      run_anim_task sample_dom
        (Reveal 1 ''all 600ms cubic-bezier(0.4, 0, 0.2, 1)'' ''translateY(0)'')
        (heading_then_reduced\<lparr> an_timeouts := [] \<rparr>)"
    by (simp add: fire_timeout_def pending)
  have still: "prefersReducedMotion (fire_timeout sample_dom 0 heading_then_reduced)"
    unfolding fired by (simp only: reveal_sets_transition) (simp add: flag)
  have moved: "transition (an_style (fire_timeout sample_dom 0 heading_then_reduced) 1) =
      ''all 600ms cubic-bezier(0.4, 0, 0.2, 1)''"
    unfolding fired by (rule reveal_sets_transition)
  show ?thesis
    using heading_animation_started(1) flag hidden still moved by (intro conjI)
qed

section \<open>Mobile menu\<close>

lemma removeClass_addClass:
  "c \<notin> set cs \<Longrightarrow> removeClass (addClass cs c) c = cs"
  by (simp add: addClass_def removeClass_def)

lemma removeClass_absent: "c \<notin> set cs \<Longrightarrow> removeClass cs c = cs"
  by (simp add: removeClass_def)

lemma addClass_present: "c \<in> set (addClass cs c)"
  by (simp add: addClass_def)

lemma openMobileMenu_returns:
  assumes "mobileMenuBtn w = Some btn" and "mainNav w = Some nav"
  shows "openMobileMenu w = Returned
     (w\<lparr> isMobileMenuOpen := True,
         nv_classes := ((nv_classes w)(nav := addClass (nv_classes w nav) ''active''))
            (btn := addClass (((nv_classes w)(nav := addClass (nv_classes w nav) ''active'')) btn)
                      ''active''),
         nv_textContent := (nv_textContent w)(btn := glyph_close),
         nv_attrs := (nv_attrs w)(btn := (nv_attrs w btn)(''aria-expanded'' \<mapsto> ''true'')),
         nv_timeouts := (case nv_first_link w nav of None \<Rightarrow> nv_timeouts w
                         | Some l \<Rightarrow> nv_timeouts w @ [(100, FocusLink l)]),
         nv_dispatched := nv_dispatched w @ [''mobileMenuOpened''],
         nv_console := nv_console w @ [(''log'', ''Mobile menu opened'')] \<rparr>)"
  using assms
  by (simp add: openMobileMenu_def helpers_addClass_def setAttribute_def nv_setTimeout_def
      helpers_dispatchEvent_def console_def Let_def split: option.splits)

lemma closeMobileMenu_returns:
  assumes "mobileMenuBtn w = Some btn" and "mainNav w = Some nav"
  shows "closeMobileMenu w = Returned
     (w\<lparr> isMobileMenuOpen := False,
         nv_classes := ((nv_classes w)(nav := removeClass (nv_classes w nav) ''active''))
            (btn := removeClass (((nv_classes w)(nav := removeClass (nv_classes w nav) ''active'')) btn)
                      ''active''),
         nv_textContent := (nv_textContent w)(btn := glyph_menu),
         nv_attrs := (nv_attrs w)(btn := (nv_attrs w btn)(''aria-expanded'' \<mapsto> ''false'')),
         nv_dispatched := nv_dispatched w @ [''mobileMenuClosed''],
         nv_console := nv_console w @ [(''log'', ''Mobile menu closed'')] \<rparr>)"
  using assms
  by (simp add: closeMobileMenu_def helpers_removeClass_def setAttribute_def
      helpers_dispatchEvent_def console_def Let_def)

lemma classes_roundtrip:
  assumes "''active'' \<notin> set (cl btn)" and "''active'' \<notin> set (cl nav)"
  shows "(((cl(nav := addClass (cl nav) ''active''))
            (btn := addClass ((cl(nav := addClass (cl nav) ''active'')) btn) ''active''))
          (nav := removeClass
             (((cl(nav := addClass (cl nav) ''active''))
                (btn := addClass ((cl(nav := addClass (cl nav) ''active'')) btn) ''active'')) nav)
             ''active''))
         (btn := removeClass
             ((((cl(nav := addClass (cl nav) ''active''))
                 (btn := addClass ((cl(nav := addClass (cl nav) ''active'')) btn) ''active''))
               (nav := removeClass
                  (((cl(nav := addClass (cl nav) ''active''))
                     (btn := addClass ((cl(nav := addClass (cl nav) ''active'')) btn) ''active'')) nav)
                  ''active'')) btn)
             ''active'')
       = cl"
proof (cases "btn = nav")
  case True
  then show ?thesis
    using assms by (simp add: addClass_def removeClass_def)
next
  case False
  then have "(cl(nav := cl nav, btn := cl btn)) = cl"
    by (simp add: fun_eq_iff)
  then show ?thesis
    using assms False by (simp add: removeClass_addClass fun_upd_twist)
qed

lemma classes_closed:
  assumes "''active'' \<notin> set (cl btn)" and "''active'' \<notin> set (cl nav)"
  shows "((cl(nav := removeClass (cl nav) ''active''))
           (btn := removeClass ((cl(nav := removeClass (cl nav) ''active'')) btn) ''active'')) = cl"
  using assms by (cases "btn = nav") (simp_all add: removeClass_absent)

lemma aria_roundtrip:
  assumes "attrs btn ''aria-expanded'' = Some ''false''"
  shows "((attrs(btn := (attrs btn)(''aria-expanded'' \<mapsto> ''true'')))
           (btn := ((attrs(btn := (attrs btn)(''aria-expanded'' \<mapsto> ''true''))) btn)
                     (''aria-expanded'' \<mapsto> ''false''))) = attrs"
  using assms by (simp add: map_upd_triv)

lemma aria_closed:
  assumes "attrs btn ''aria-expanded'' = Some ''false''"
  shows "(attrs(btn := (attrs btn)(''aria-expanded'' \<mapsto> ''false''))) = attrs"
  using assms by (simp add: map_upd_triv)


text \<open>
  C2, as the code has it. With the menu button and the navigation present and the menu
  closed (flag unset, no \<open>active\<close> class on either element, \<open>aria-expanded\<close> of the
  button \<open>false\<close>), \<open>openMobileMenu\<close> followed by \<open>closeMobileMenu\<close> returns with the
  class lists and attributes of all elements as before the opening and the flag unset.
  \<open>closeMobileMenu\<close> on the closed menu also leaves flag, class lists and attributes
  as they are, but it is not without effect: it sets the glyph of the button,
  dispatches \<open>mobileMenuClosed\<close> and writes a console line.
\<close>

theorem menu_open_close_roundtrip:
  assumes btn: "mobileMenuBtn w = Some btn" and nav: "mainNav w = Some nav"
    and closed: "\<not> isMobileMenuOpen w" "''active'' \<notin> set (nv_classes w btn)"
      "''active'' \<notin> set (nv_classes w nav)"
      "nv_attrs w btn ''aria-expanded'' = Some ''false''"
  shows "(\<exists>w1 w2. openMobileMenu w = Returned w1 \<and> closeMobileMenu w1 = Returned w2
        \<and> isMobileMenuOpen w1
        \<and> ''active'' \<in> set (nv_classes w1 btn) \<and> ''active'' \<in> set (nv_classes w1 nav)
        \<and> nv_attrs w1 btn ''aria-expanded'' = Some ''true''
        \<and> \<not> isMobileMenuOpen w2
        \<and> nv_classes w2 = nv_classes w
        \<and> nv_attrs w2 = nv_attrs w)
    \<and> (\<exists>w3. closeMobileMenu w = Returned w3
        \<and> isMobileMenuOpen w3 = isMobileMenuOpen w
        \<and> nv_classes w3 = nv_classes w
        \<and> nv_attrs w3 = nv_attrs w
        \<and> nv_textContent w3 = (nv_textContent w)(btn := glyph_menu)
        \<and> nv_dispatched w3 = nv_dispatched w @ [''mobileMenuClosed'']
        \<and> nv_console w3 = nv_console w @ [(''log'', ''Mobile menu closed'')])"
proof -
  define w1 where "w1 = state_of (openMobileMenu w)"
  have w1: "openMobileMenu w = Returned w1"
    and w1_btn: "mobileMenuBtn w1 = Some btn" and w1_nav: "mainNav w1 = Some nav"
    and w1_open: "isMobileMenuOpen w1"
    and w1_classes: "nv_classes w1 = ((nv_classes w)(nav := addClass (nv_classes w nav) ''active''))
            (btn := addClass (((nv_classes w)(nav := addClass (nv_classes w nav) ''active'')) btn)
                      ''active'')"
    and w1_attrs: "nv_attrs w1 = (nv_attrs w)(btn := (nv_attrs w btn)(''aria-expanded'' \<mapsto> ''true''))"
    unfolding w1_def openMobileMenu_returns [OF btn nav] using btn nav by simp_all
  define w2 where "w2 = state_of (closeMobileMenu w1)"
  have w2: "closeMobileMenu w1 = Returned w2"
    and w2_open: "\<not> isMobileMenuOpen w2"
    and w2_classes: "nv_classes w2 = ((nv_classes w1)(nav := removeClass (nv_classes w1 nav) ''active''))
            (btn := removeClass (((nv_classes w1)(nav := removeClass (nv_classes w1 nav) ''active'')) btn)
                      ''active'')"
    and w2_attrs: "nv_attrs w2 = (nv_attrs w1)(btn := (nv_attrs w1 btn)(''aria-expanded'' \<mapsto> ''false''))"
    unfolding w2_def closeMobileMenu_returns [OF w1_btn w1_nav] by simp_all
  have active: "''active'' \<in> set (nv_classes w1 btn)" "''active'' \<in> set (nv_classes w1 nav)"
    unfolding w1_classes by (simp_all add: addClass_present)
  have expanded: "nv_attrs w1 btn ''aria-expanded'' = Some ''true''"
    unfolding w1_attrs by simp
  have classes_back: "nv_classes w2 = nv_classes w"
    unfolding w2_classes w1_classes by (rule classes_roundtrip [where cl = "nv_classes w" and btn = btn and nav = nav, OF closed(2) closed(3)])
  have attrs_back: "nv_attrs w2 = nv_attrs w"
    unfolding w2_attrs w1_attrs by (rule aria_roundtrip [where attrs = "nv_attrs w" and btn = btn, OF closed(4)])
  define w3 where "w3 = state_of (closeMobileMenu w)"
  have w3: "closeMobileMenu w = Returned w3"
    and w3_open: "isMobileMenuOpen w3 = False"
    and w3_classes: "nv_classes w3 = ((nv_classes w)(nav := removeClass (nv_classes w nav) ''active''))
            (btn := removeClass (((nv_classes w)(nav := removeClass (nv_classes w nav) ''active'')) btn)
                      ''active'')"
    and w3_attrs: "nv_attrs w3 = (nv_attrs w)(btn := (nv_attrs w btn)(''aria-expanded'' \<mapsto> ''false''))"
    and w3_text: "nv_textContent w3 = (nv_textContent w)(btn := glyph_menu)"
    and w3_events: "nv_dispatched w3 = nv_dispatched w @ [''mobileMenuClosed'']"
    and w3_console: "nv_console w3 = nv_console w @ [(''log'', ''Mobile menu closed'')]"
    unfolding w3_def closeMobileMenu_returns [OF btn nav] by simp_all
  have classes_same: "nv_classes w3 = nv_classes w"
    unfolding w3_classes by (rule classes_closed [where cl = "nv_classes w" and btn = btn and nav = nav, OF closed(2) closed(3)])
  have attrs_same: "nv_attrs w3 = nv_attrs w"
    unfolding w3_attrs by (rule aria_closed [where attrs = "nv_attrs w" and btn = btn, OF closed(4)])
  have part1: "\<exists>w1 w2. openMobileMenu w = Returned w1 \<and> closeMobileMenu w1 = Returned w2
        \<and> isMobileMenuOpen w1
        \<and> ''active'' \<in> set (nv_classes w1 btn) \<and> ''active'' \<in> set (nv_classes w1 nav)
        \<and> nv_attrs w1 btn ''aria-expanded'' = Some ''true''
        \<and> \<not> isMobileMenuOpen w2
        \<and> nv_classes w2 = nv_classes w
        \<and> nv_attrs w2 = nv_attrs w"
    using w1 w2 w1_open active expanded w2_open classes_back attrs_back by blast
  have part2: "\<exists>w3. closeMobileMenu w = Returned w3
        \<and> isMobileMenuOpen w3 = isMobileMenuOpen w
        \<and> nv_classes w3 = nv_classes w
        \<and> nv_attrs w3 = nv_attrs w
        \<and> nv_textContent w3 = (nv_textContent w)(btn := glyph_menu)
        \<and> nv_dispatched w3 = nv_dispatched w @ [''mobileMenuClosed'']
        \<and> nv_console w3 = nv_console w @ [(''log'', ''Mobile menu closed'')]"
    using w3 w3_open closed(1) classes_same attrs_same w3_text w3_events w3_console by blast
  show ?thesis using part1 part2 by (rule conjI)
qed

lemma sample_page_menu:
  "mobileMenuBtn sample_page = Some 2" "mainNav sample_page = Some 3"
  "\<not> isMobileMenuOpen sample_page" "''active'' \<notin> set (nv_classes sample_page 2)"
  "''active'' \<notin> set (nv_classes sample_page 3)"
  "nv_attrs sample_page 2 ''aria-expanded'' = Some ''false''"
  "nv_dispatched sample_page = []" "nv_console sample_page = []"
  "nv_frames sample_page = []" "nv_scrollTo_calls sample_page = []"
  by (simp_all add: sample_page_def)

theorem menu_open_close_roundtrip_witness:
  "mobileMenuBtn sample_page = Some 2 \<and> mainNav sample_page = Some 3
   \<and> \<not> isMobileMenuOpen sample_page
   \<and> ''active'' \<notin> set (nv_classes sample_page 2)
   \<and> ''active'' \<notin> set (nv_classes sample_page 3)
   \<and> nv_attrs sample_page 2 ''aria-expanded'' = Some ''false''
   \<and> nv_classes (state_of (closeMobileMenu (state_of (openMobileMenu sample_page))))
        = nv_classes sample_page
   \<and> nv_attrs (state_of (closeMobileMenu (state_of (openMobileMenu sample_page))))
        = nv_attrs sample_page
   \<and> nv_attrs (state_of (openMobileMenu sample_page)) 2 ''aria-expanded'' = Some ''true''
   \<and> nv_dispatched (state_of (closeMobileMenu sample_page)) = [''mobileMenuClosed'']"
proof -
  from menu_open_close_roundtrip [OF sample_page_menu(1-6)]
  obtain w1 w2 w3 where
      "openMobileMenu sample_page = Returned w1" "closeMobileMenu w1 = Returned w2"
      "nv_attrs w1 2 ''aria-expanded'' = Some ''true''"
      "nv_classes w2 = nv_classes sample_page" "nv_attrs w2 = nv_attrs sample_page"
      "closeMobileMenu sample_page = Returned w3"
      "nv_dispatched w3 = nv_dispatched sample_page @ [''mobileMenuClosed'']"
    by blast
  then show ?thesis
    using sample_page_menu by simp
qed

text \<open>
  C2 as stated has \<open>closeMobileMenu\<close> on the closed menu do nothing. On the sample
  page, whose menu is closed, the call does not leave the page as it was: one
  \<open>mobileMenuClosed\<close> event has been dispatched and one console line written.
\<close>

theorem closeMobileMenu_closed_not_noop:
  "closeMobileMenu sample_page \<noteq> Returned sample_page
   \<and> nv_dispatched sample_page = []
   \<and> nv_dispatched (state_of (closeMobileMenu sample_page)) = [''mobileMenuClosed'']
   \<and> nv_console (state_of (closeMobileMenu sample_page)) = [(''log'', ''Mobile menu closed'')]"
proof -
  have after: "nv_dispatched (state_of (closeMobileMenu sample_page)) = [''mobileMenuClosed'']"
      "nv_console (state_of (closeMobileMenu sample_page)) = [(''log'', ''Mobile menu closed'')]"
    by (simp_all add: closeMobileMenu_returns [OF sample_page_menu(1,2)] sample_page_menu)
  have "closeMobileMenu sample_page \<noteq> Returned sample_page"
  proof
    assume "closeMobileMenu sample_page = Returned sample_page"
    then have "nv_dispatched (state_of (closeMobileMenu sample_page)) = nv_dispatched sample_page"
      by simp
    then show False by (simp add: after sample_page_menu)
  qed
  then show ?thesis using after sample_page_menu(7) by simp
qed


section \<open>Smooth scrolling\<close>

lemma scrollToElement_frame:
  "scrollToElement (Some target) w =
     w\<lparr> nv_frames := nv_frames w @
        [\<lparr> sa_startPosition = nv_pageYOffset w,
           sa_distance = of_int (nv_offsetTop w target
               - ((case header w of Some h \<Rightarrow> nv_offsetHeight w h | None \<Rightarrow> 0) + 80))
             - nv_pageYOffset w,
           sa_duration = 800, sa_startTime = None \<rparr>] \<rparr>"
  by (simp add: scrollToElement_def smoothScrollTo_def smoothScrollOffset_def
      smoothScrollDuration_def Let_def)

lemma easeInOutQuad_ends:
  "easeInOutQuad 0 b c d = b" "0 < d \<Longrightarrow> easeInOutQuad d b c d = b + c"
  by (simp_all add: easeInOutQuad_def Let_def)

lemma animation_throws:
  "nv_global_functions w ''easeInOutQuad'' = None \<Longrightarrow> animation a t w = Threw TypeError w"
  by (simp add: animation_def Let_def)

lemma animation_with_global_function:
  assumes "nv_global_functions w ''easeInOutQuad'' = Some f" and "sa_startTime a = Some t0"
  shows "nv_scrollTo_calls (state_of (animation a t w)) =
     nv_scrollTo_calls w @ [(0, f (t - t0) (sa_startPosition a) (sa_distance a) (sa_duration a))]"
  using assms by (simp add: animation_def Let_def)

lemma sample_page_about:
  "nv_attrs sample_page 4 ''href'' = Some ''#about''"
  "nv_getElementById sample_page ''about'' = Some 7"
  "header sample_page = Some 9" "nv_offsetHeight sample_page 9 = 60"
  "nv_offsetTop sample_page 7 = 1000" "nv_pageYOffset sample_page = 0"
  "nv_global_functions sample_page ''easeInOutQuad'' = None"
  "navLinks sample_page = [4, 5, 6]"
  "nv_querySelector sample_page (nav_link_selector ''about'') = Inr (Some 4)"
  by (simp_all add: sample_page_def)

lemma handleNavClick_about_frames:
  "thrown (handleNavClick 4 sample_page) = None"
  "nv_frames (state_of (handleNavClick 4 sample_page)) =
     [\<lparr> sa_startPosition = 0, sa_distance = 860, sa_duration = 800, sa_startTime = None \<rparr>]"
  "nv_global_functions (state_of (handleNavClick 4 sample_page)) ''easeInOutQuad'' = None"
  "nv_scrollTo_calls (state_of (handleNavClick 4 sample_page)) = []"
  "nv_pageYOffset (state_of (handleNavClick 4 sample_page)) = 0"
  by (simp_all add: handleNavClick_def find_section_def scrollToElement_frame
      updateActiveNavItem_def then_do_def clear_link_def helpers_removeClass_def
      helpers_addClass_def setAttribute_def isMobile_def sample_page_about sample_page_menu
      Let_def)

text \<open>
  C4. Navigation's smooth scroll takes as offset the height of the header (0 without
  a header) plus 80 pixels and moves the window to the target over 800 ms along the
  quadratic ease-in/ease-out curve. The offset and the duration are as claimed: a click
  on the link to \<open>#about\<close> (section at 1000 pixels, header 60 pixels high, window at
  the top) requests an animation over the distance \<open>1000 - (60 + 80) = 860\<close> with
  duration 800. The animation never moves the window: its first frame calls
  \<open>this.easeInOutQuad\<close>, which is not a property of the global object, and throws a
  \<open>TypeError\<close> before \<open>window.scrollTo\<close> is reached; no further frame is requested.
  The curve itself (\<open>easeInOutQuad\<close>, declared next to \<open>animation\<close>) is never
  called; half-way through it would have put the window at 430 pixels.
\<close>

theorem smooth_scroll_first_frame_throws:
  "nv_frames (state_of (handleNavClick 4 sample_page)) =
     [\<lparr> sa_startPosition = 0, sa_distance = 860, sa_duration = 800, sa_startTime = None \<rparr>]
   \<and> thrown (run_frame 16 (state_of (handleNavClick 4 sample_page))) = Some TypeError
   \<and> nv_scrollTo_calls (state_of (run_frame 16 (state_of (handleNavClick 4 sample_page)))) = []
   \<and> nv_pageYOffset (state_of (run_frame 16 (state_of (handleNavClick 4 sample_page)))) = 0
   \<and> nv_frames (state_of (run_frame 16 (state_of (handleNavClick 4 sample_page)))) = []
   \<and> easeInOutQuad 400 0 860 800 = 430"
proof -
  have run: "run_frame 16 (state_of (handleNavClick 4 sample_page)) =
      Threw TypeError ((state_of (handleNavClick 4 sample_page))\<lparr> nv_frames := [] \<rparr>)"
    by (simp add: run_frame_def handleNavClick_about_frames animation_throws)
  have curve: "easeInOutQuad 400 0 860 800 = 430"
    by (simp add: easeInOutQuad_def Let_def)
  show ?thesis
    unfolding run by (simp add: handleNavClick_about_frames curve)
qed

section \<open>Clicks on links without a target\<close>

text \<open>
  Where the look-up of the target runs through and finds nothing (the id is not
  \<open>get-started\<close>, no element has it, and the \<open>data-section\<close> query returns no
  element), the click returns without an exception; besides preventing the default
  action it only writes the warning to the console.
\<close>

lemma handleNavClick_missing_target:
  assumes href: "nv_attrs w link ''href'' = Some href"
    and ordinary: "drop 1 href \<noteq> ''get-started''"
    and no_id: "nv_getElementById w (drop 1 href) = None"
    and no_section: "nv_querySelector w (data_section_selector (drop 1 href)) = Inr None"
  shows "handleNavClick link w =
     Returned (w\<lparr> nv_defaultPrevented := True,
                 nv_console := nv_console w @
                   [(''warn'', ''Target element not found: '' @ drop 1 href)] \<rparr>)"
  using assms by (simp add: handleNavClick_def find_section_def console_def Let_def)

lemma sample_page_missing:
  "nv_attrs sample_page 5 ''href'' = Some ''#missing''"
  "nv_getElementById sample_page ''missing'' = None"
  "nv_querySelector sample_page (data_section_selector ''missing'') = Inr None"
  "nv_attrs sample_page 6 ''href'' = Some ''#get-started''"
  "nv_getElementById sample_page ''get-started'' = None"
  "nv_querySelector sample_page (data_section_selector ''get-started'') = Inr None"
  "nv_getElementById sample_page ''contact'' = Some 8"
  "nv_offsetTop sample_page 8 = 3000"
  by (simp_all add: sample_page_def data_section_selector_def nav_link_selector_def)

text \<open>
  The id \<open>get-started\<close> is handled before any look-up: on the sample page, where no
  element has that id or data section, the click on its link writes no warning,
  requests a scroll animation towards the contact section and dispatches
  \<open>getStartedClicked\<close>.
\<close>

lemma handleNavClick_get_started:
  "nv_attrs sample_page 6 ''href'' = Some ''#get-started''
   \<and> nv_getElementById sample_page ''get-started'' = None
   \<and> nv_querySelector sample_page (data_section_selector ''get-started'') = Inr None
   \<and> nv_console (state_of (handleNavClick 6 sample_page)) = []
   \<and> nv_frames (state_of (handleNavClick 6 sample_page)) =
        [\<lparr> sa_startPosition = 0, sa_distance = 2860, sa_duration = 800, sa_startTime = None \<rparr>]
   \<and> nv_dispatched (state_of (handleNavClick 6 sample_page)) = [''getStartedClicked'']"
  by (simp add: handleNavClick_def handleGetStarted_def find_section_def
      scrollToElement_frame helpers_dispatchEvent_def sample_page_missing sample_page_about
      sample_page_menu Let_def)


lemma quoted_page_link:
  "nv_attrs quoted_page 11 ''href'' = Some (''#'' @ quoted_id)"
  "nv_getElementById quoted_page quoted_id = None"
  "nv_querySelector quoted_page (data_section_selector quoted_id) = Inl SyntaxError"
  "nv_console quoted_page = []" "nv_frames quoted_page = []"
  by (simp_all add: quoted_page_def sample_page_def quoted_id_def)

text \<open>
  C5. A click on a navigation link whose target id resolves to no element logs a
  warning, does not scroll, does not change the active link and raises no exception.
  The code does not keep that for every id: it puts the id into the
  \<open>data-section\<close> selector as it is. On the page with the link to \<open>#a"b\<close>, whose id
  no element has, \<open>querySelector\<close> throws for the selector built from the id, and
  the exception leaves \<open>handleNavClick\<close>: the click throws a \<open>SyntaxError\<close> and no
  warning is written.
\<close>

theorem handleNavClick_quoted_id_throws:
  "nv_attrs quoted_page 11 ''href'' = Some (''#'' @ quoted_id)
   \<and> nv_getElementById quoted_page quoted_id = None
   \<and> thrown (handleNavClick 11 quoted_page) = Some SyntaxError
   \<and> nv_console (state_of (handleNavClick 11 quoted_page)) = []
   \<and> nv_frames (state_of (handleNavClick 11 quoted_page)) = []"
proof -
  have target: "drop 1 (''#'' @ quoted_id) = quoted_id"
    by simp
  have ordinary: "quoted_id \<noteq> ''get-started''"
    by (simp add: quoted_id_def)
  have click: "handleNavClick 11 quoted_page =
      Threw SyntaxError (quoted_page\<lparr> nv_defaultPrevented := True \<rparr>)"
    by (simp add: handleNavClick_def find_section_def quoted_page_link target ordinary Let_def)
  show ?thesis
    unfolding click by (simp add: quoted_page_link)
qed

end
